theory Spec2Isabelle
  imports Complex_Main
begin

section \<open>Heart Cloud: gesture classifier, samplers and scene animation\<close>

text \<open>
  The program is a TypeScript/React scene. Its numbers are IEEE-754 doubles; the model
  reads them as real numbers (rounding is not modelled), and models the special values
  NaN and the infinities only where the code tests for them (the scale guard of
  \<open>PhotoFrame\<close>). Calls of \<open>Math.random()\<close> are arguments of the model, in the
  order in which the source draws them.
\<close>

subsection \<open>types.ts\<close>

datatype GestureState = DISPERSED | FORMED | ROTATING | FOCUSED | LOADING

record HandLandmark =
  lx :: real
  ly :: real
  lz :: real

subsection \<open>The parts of three.js the sources call\<close>

record Vector3 =
  vx :: real
  vy :: real
  vz :: real

definition Vector3_new :: "real \<Rightarrow> real \<Rightarrow> real \<Rightarrow> Vector3" where
  "Vector3_new a b c = \<lparr>vx = a, vy = b, vz = c\<rparr>"

text \<open>\<open>Vector3.multiplyScalar\<close>, \<open>Vector3.length\<close>, \<open>Vector3.distanceTo\<close>,
  \<open>Vector3.lerp\<close> and \<open>MathUtils.lerp\<close>, as three.js defines them.\<close>

definition multiplyScalar :: "Vector3 \<Rightarrow> real \<Rightarrow> Vector3" where
  "multiplyScalar v s = \<lparr>vx = vx v * s, vy = vy v * s, vz = vz v * s\<rparr>"

definition length3 :: "Vector3 \<Rightarrow> real" where
  "length3 v = sqrt (vx v * vx v + vy v * vy v + vz v * vz v)"

definition distanceTo :: "Vector3 \<Rightarrow> Vector3 \<Rightarrow> real" where
  "distanceTo a b =
     (let dx = vx a - vx b; dy = vy a - vy b; dz = vz a - vz b
      in sqrt (dx * dx + dy * dy + dz * dz))"

definition lerp3 :: "Vector3 \<Rightarrow> Vector3 \<Rightarrow> real \<Rightarrow> Vector3" where
  "lerp3 p v alpha =
     \<lparr>vx = vx p + (vx v - vx p) * alpha,
      vy = vy p + (vy v - vy p) * alpha,
      vz = vz p + (vz v - vz p) * alpha\<rparr>"

definition lerp :: "real \<Rightarrow> real \<Rightarrow> real \<Rightarrow> real" where
  "lerp a b t = (1 - t) * a + t * b"

subsection \<open>utils/math: the two samplers\<close>

text \<open>\<open>randomInSphere radius\<close> draws \<open>u\<close>, \<open>v\<close> and then the radial draw \<open>w\<close>.\<close>

definition randomInSphere :: "real \<Rightarrow> real \<Rightarrow> real \<Rightarrow> real \<Rightarrow> Vector3" where
  "randomInSphere radius u v w =
     (let theta = 2 * pi * u;
          phi = arccos (2 * v - 1);
          r = root 3 w * radius;
          sinPhi = sin phi
      in Vector3_new (r * sinPhi * cos theta) (r * sinPhi * sin theta) (r * cos phi))"

text \<open>\<open>randomInHeart scale\<close> draws the parameter \<open>dt\<close>, the z jitter \<open>dz\<close> and the
  radial draw \<open>dr\<close>.\<close>

definition randomInHeart :: "real \<Rightarrow> real \<Rightarrow> real \<Rightarrow> real \<Rightarrow> Vector3" where
  "randomInHeart scale dt dz dr =
     (let t = dt * pi * 2;
          x = 16 * sin t ^ 3;
          y = 13 * cos t - 5 * cos (2 * t) - 2 * cos (3 * t) - cos (4 * t);
          z = (dz - 0.5) * 8;
          vec = Vector3_new x y z;
          r = root 3 dr
      in multiplyScalar (multiplyScalar vec r) scale)"


text \<open>The points \<open>randomInHeart s\<close> can return, the draws ranging over \<open>[0,1)\<close>.\<close>

definition heart_support :: "real \<Rightarrow> Vector3 set" where
  "heart_support s =
     {randomInHeart s dt dz dr | dt dz dr. 0 \<le> dt \<and> dt < 1 \<and> 0 \<le> dz \<and> dz < 1 \<and> 0 \<le> dr \<and> dr < 1}"

subsection \<open>VisionController: the gesture classifier\<close>

datatype js_error = TypeError

text \<open>An array read \<open>a[i]\<close>: \<open>undefined\<close> (here \<open>None\<close>) out of range.\<close>

definition at_index :: "'a list \<Rightarrow> nat \<Rightarrow> 'a option" where
  "at_index xs i = (if i < length xs then Some (xs ! i) else None)"

text \<open>The helper \<open>dist\<close> of \<open>detectGesture\<close>; reading \<open>.x\<close> of \<open>undefined\<close> throws.\<close>

definition dist :: "HandLandmark option \<Rightarrow> HandLandmark option \<Rightarrow> js_error + real" where
  "dist p1 p2 =
     (case p1 of
        None \<Rightarrow> Inl TypeError
      | Some a \<Rightarrow>
          (case p2 of
             None \<Rightarrow> Inl TypeError
           | Some b \<Rightarrow> Inr (sqrt ((lx a - lx b) ^ 2 + (ly a - ly b) ^ 2))))"

definition and_then :: "js_error + 'a \<Rightarrow> ('a \<Rightarrow> js_error + 'b) \<Rightarrow> js_error + 'b" where
  "and_then r f = (case r of Inl e \<Rightarrow> Inl e | Inr a \<Rightarrow> f a)"

text \<open>The argument is the detector's list of hands, \<open>None\<close> when it is null or undefined.
  \<open>fist_or_open\<close> is the code after the V-sign test, reached when the outer or the inner
  \<open>if\<close> of that test fails.\<close>

definition detectGesture :: "HandLandmark list list option \<Rightarrow> js_error + GestureState" where
  "detectGesture landmarks =
     (case landmarks of
        None \<Rightarrow> Inr DISPERSED
      | Some [] \<Rightarrow> Inr DISPERSED
      | Some (hand # others) \<Rightarrow>
         (let wrist = at_index hand 0;
              thumbTip = at_index hand 4;
              indexTip = at_index hand 8;
              middleTip = at_index hand 12;
              ringTip = at_index hand 16;
              pinkyTip = at_index hand 20
          in and_then (dist thumbTip indexTip) (\<lambda>pinchDist.
             and_then (dist indexTip wrist) (\<lambda>indexDist.
             and_then (dist middleTip wrist) (\<lambda>middleDist.
             and_then (dist ringTip wrist) (\<lambda>ringDist.
             and_then (dist pinkyTip wrist) (\<lambda>pinkyDist.
               if pinchDist < 0.06 \<and> (middleDist > 0.2 \<or> ringDist > 0.2) then Inr FOCUSED
               else
                 (let fist_or_open =
                        (let avgTipToWrist = (indexDist + middleDist + ringDist + pinkyDist) / 4
                         in if avgTipToWrist < 0.25 then Inr FORMED else Inr DISPERSED)
                  in if indexDist > 0.35 \<and> middleDist > 0.35 \<and> ringDist < 0.25 \<and> pinkyDist < 0.25
                     then (if pinchDist > 0.1 then Inr ROTATING else fist_or_open)
                     else fist_or_open))))))))"

text \<open>
  The cascade as the specification words it, over the pinch distance and the four
  extension distances; \<open>dist2\<close> is the planar Euclidean distance of two landmarks.
\<close>

definition dist2 :: "HandLandmark \<Rightarrow> HandLandmark \<Rightarrow> real" where
  "dist2 a b = sqrt ((lx a - lx b) ^ 2 + (ly a - ly b) ^ 2)"

definition cascade :: "real \<Rightarrow> real \<Rightarrow> real \<Rightarrow> real \<Rightarrow> real \<Rightarrow> GestureState" where
  "cascade pinch eIndex eMiddle eRing ePinky =
     (if pinch < 0.06 \<and> (eMiddle > 0.2 \<or> eRing > 0.2) then FOCUSED
      else if eIndex > 0.35 \<and> eMiddle > 0.35 \<and> eRing < 0.25 \<and> ePinky < 0.25 \<and> pinch > 0.1
           then ROTATING
      else if (eIndex + eMiddle + eRing + ePinky) / 4 < 0.25 then FORMED
      else DISPERSED)"

text \<open>A pose of 21 landmarks on a line: thumb and index tips 0.04 apart, the middle
  tip 0.3 from the wrist, ring and pinky tips 0.1 from it.\<close>

definition pinch_pose :: "HandLandmark list" where
  "pinch_pose =
     (replicate 21 \<lparr>lx = 0, ly = 0, lz = 0\<rparr>)
       [4 := \<lparr>lx = 0.34, ly = 0, lz = 0.1\<rparr>,
        8 := \<lparr>lx = 0.3, ly = 0, lz = 0.2\<rparr>,
        12 := \<lparr>lx = 0.3, ly = 0, lz = 0\<rparr>,
        16 := \<lparr>lx = 0.1, ly = 0, lz = 0\<rparr>,
        20 := \<lparr>lx = 0.1, ly = 0, lz = 0\<rparr>]"

definition planar :: "HandLandmark \<Rightarrow> real \<times> real" where
  "planar l = (lx l, ly l)"

subsection \<open>App: the shared gesture state and hand anchor\<close>

record App =
  gestureState :: GestureState
  debugText :: string
  handPos :: Vector3

definition handleGestureChange :: "GestureState \<Rightarrow> App \<Rightarrow> App" where
  "handleGestureChange state s =
     (s\<lparr>gestureState := state\<rparr>)
       \<lparr>debugText :=
          (case state of
             FORMED \<Rightarrow> ''FIST: Form Heart''
           | ROTATING \<Rightarrow> ''V-SIGN: Rotating Heart''
           | FOCUSED \<Rightarrow> ''PINCH: Focus Photo''
           | _ \<Rightarrow> ''OPEN: Disperse Stars'')\<rparr>"

definition handleHandMove :: "real \<Rightarrow> real \<Rightarrow> App \<Rightarrow> App" where
  "handleHandMove x y s =
     (let sensitivityX = 25;
          sensitivityY = 15;
          targetX = (0.5 - x) * sensitivityX * 2;
          targetY = (0.5 - y) * sensitivityY * 2
      in s\<lparr>handPos := Vector3_new targetX targetY 0\<rparr>)"

text \<open>
  One detection cycle of \<open>predictWebcam\<close>, with \<open>onGestureChange\<close> and \<open>onHandMove\<close>
  bound as \<open>App\<close> binds them. \<open>refs\<close> says that the landmarker, the video and the canvas
  are there; \<open>landmarks\<close> is the \<open>landmarks\<close> field of the detector's result. The debug
  overlay and the request for the next frame are left out.
\<close>

definition predictWebcam ::
  "bool \<Rightarrow> real \<Rightarrow> real \<Rightarrow> HandLandmark list list option \<Rightarrow> App \<Rightarrow> js_error + App" where
  "predictWebcam refs videoWidth videoHeight landmarks s =
     (if \<not> refs then Inr s
      else if videoWidth > 0 \<and> videoHeight > 0 then
        (case landmarks of
           Some (hand # others) \<Rightarrow>
             and_then (detectGesture landmarks) (\<lambda>newState.
               (case at_index hand 0 of
                  None \<Rightarrow> Inl TypeError
                | Some l0 \<Rightarrow> Inr (handleHandMove (lx l0) (ly l0) (handleGestureChange newState s))))
         | _ \<Rightarrow> Inr (handleHandMove 0.5 0.5 (handleGestureChange DISPERSED s)))
      else Inr s)"

subsection \<open>The groups of the scene and their per-frame update\<close>

record Euler =
  ex :: real
  ey :: real
  ez :: real

record Group =
  g_position :: Vector3
  g_rotation :: Euler

text \<open>Position and parallax tilt of a group, the same statements in \<open>PhotoGallery\<close> and
  in \<open>HeartParticles\<close>.\<close>

definition move_and_tilt :: "GestureState \<Rightarrow> Vector3 \<Rightarrow> Group \<Rightarrow> Group" where
  "move_and_tilt gs hand g =
     (let isFormed = (gs = FORMED \<or> gs = ROTATING);
          targetPos = (if isFormed then Vector3_new 0 0 0 else hand);
          p = lerp3 (g_position g) targetPos 0.1;
          targetRotX = - vy hand * 0.05;
          targetRotY = vx hand * 0.05;
          r = g_rotation g;
          r1 = r\<lparr>ex := lerp (ex r) targetRotX 0.05\<rparr>;
          r2 = r1\<lparr>ey := lerp (ey r1) targetRotY 0.05\<rparr>
      in \<lparr>g_position = p, g_rotation = r2\<rparr>)"

text \<open>Spin, sway or drift about the y axis: the inner group of the gallery and the
  instanced mesh of the particles.\<close>

definition spin_y :: "GestureState \<Rightarrow> real \<Rightarrow> real \<Rightarrow> real \<Rightarrow> real" where
  "spin_y gs delta time ry =
     (if gs = ROTATING then ry + delta * 2
      else if gs = FORMED then lerp ry (sin (time * 0.5) * 0.2) 0.05
      else ry + delta * 0.1)"

record gallery_refs =
  outerGroupRef :: "Group option"
  innerGroupRef :: "Group option"

definition gallery_useFrame ::
  "GestureState \<Rightarrow> Vector3 \<Rightarrow> real \<Rightarrow> real \<Rightarrow> gallery_refs \<Rightarrow> gallery_refs" where
  "gallery_useFrame gs hand delta time refs =
     \<lparr>outerGroupRef =
        (case outerGroupRef refs of
           None \<Rightarrow> None
         | Some g \<Rightarrow> Some (move_and_tilt gs hand g)),
      innerGroupRef =
        (case innerGroupRef refs of
           None \<Rightarrow> None
         | Some g \<Rightarrow>
             Some (g\<lparr>g_rotation := (g_rotation g)\<lparr>ey := spin_y gs delta time (ey (g_rotation g))\<rparr>\<rparr>))\<rparr>"

subsection \<open>HeartParticles\<close>

text \<open>
  The \<open>Float32Array\<close> buffers live in a store, addressed by the array object: the
  target buffer of a frame is an alias of one of the two precomputed buffers. Their
  entries are read as reals (the rounding to single precision is not modelled). Every
  buffer has \<open>COUNT * 3\<close> entries, so no read or write of the loop is out of range.
\<close>

type_synonym addr = nat

type_synonym buffers = "addr \<Rightarrow> real list"

definition COUNT :: nat where
  "COUNT = 5000"

definition DAMPING :: real where
  "DAMPING = 0.05"

text \<open>What \<open>setMatrixAt\<close> receives for one instance: the transform of \<open>dummy\<close>.\<close>

record instance_transform =
  i_position :: Vector3
  i_rotation :: Euler
  i_scale :: real

record particle_mesh =
  pm_rotation_y :: real
  pm_opacity :: real
  pm_instances :: "instance_transform list"

record HeartParticles =
  meshRef :: "particle_mesh option"
  groupRef :: "Group option"
  heartPositions :: addr
  dispersedPositions :: addr
  currentPositions :: addr
  randomPhases :: "real list"

text \<open>One pass of the loop body, for particle \<open>i\<close>.\<close>

definition particle_step ::
  "real \<Rightarrow> addr \<Rightarrow> addr \<Rightarrow> real list \<Rightarrow> nat
     \<Rightarrow> buffers \<times> instance_transform list \<Rightarrow> buffers \<times> instance_transform list" where
  "particle_step time targetBuffer cur phases i st =
     (let bufs = fst st;
          insts = snd st;
          scale = 1;
          idx = i * 3;
          tx = bufs targetBuffer ! idx * scale;
          ty = bufs targetBuffer ! (idx + 1) * scale;
          tz = bufs targetBuffer ! (idx + 2) * scale;
          noise = sin (time * 2 + real i) * 0.1;
          c0 = bufs cur;
          c1 = c0[idx := c0 ! idx + (tx - c0 ! idx) * DAMPING];
          c2 = c1[idx + 1 := c1 ! (idx + 1) + (ty + noise - c1 ! (idx + 1)) * DAMPING];
          c3 = c2[idx + 2 := c2 ! (idx + 2) + (tz - c2 ! (idx + 2)) * DAMPING];
          twinkle = 1 + sin (time * 3 + phases ! i) * 0.5;
          dummy = \<lparr>i_position = Vector3_new (c3 ! idx) (c3 ! (idx + 1)) (c3 ! (idx + 2)),
                   i_rotation = \<lparr>ex = time * 0.5, ey = time * 0.3, ez = 0\<rparr>,
                   i_scale = 0.15 * twinkle\<rparr>
      in (bufs(cur := c3), insts[i := dummy]))"

definition particles_useFrame ::
  "GestureState \<Rightarrow> Vector3 \<Rightarrow> real \<Rightarrow> real \<Rightarrow> HeartParticles \<Rightarrow> buffers
     \<Rightarrow> HeartParticles \<times> buffers" where
  "particles_useFrame gs hand delta time P bufs =
     (case meshRef P of
        None \<Rightarrow> (P, bufs)
      | Some mesh \<Rightarrow>
         (case groupRef P of
            None \<Rightarrow> (P, bufs)
          | Some g \<Rightarrow>
             (let isFormed = (gs = FORMED \<or> gs = ROTATING);
                  g' = move_and_tilt gs hand g;
                  targetBuffer =
                    (if isFormed \<or> gs = FOCUSED then heartPositions P else dispersedPositions P);
                  looped = fold (particle_step time targetBuffer (currentPositions P) (randomPhases P))
                             [0..<COUNT] (bufs, pm_instances mesh);
                  opacity = (if gs = FOCUSED then lerp (pm_opacity mesh) 0.2 0.1
                             else lerp (pm_opacity mesh) 1 0.1);
                  mesh' = \<lparr>pm_rotation_y = spin_y gs delta time (pm_rotation_y mesh),
                           pm_opacity = opacity,
                           pm_instances = snd looped\<rparr>
              in (P\<lparr>meshRef := Some mesh', groupRef := Some g'\<rparr>, fst looped))))"

subsection \<open>PhotoGallery: targets and focus selection\<close>

text \<open>
  The \<open>Vector3\<close> objects that outlive a frame (the targets of the photos and the
  \<open>position\<close> ref of each \<open>PhotoFrame\<close>) live in a store; \<open>fresh\<close> is the next
  address \<open>new\<close> hands out.
\<close>

record heap =
  vecs :: "addr \<Rightarrow> Vector3"
  fresh :: addr

definition alloc :: "Vector3 \<Rightarrow> heap \<Rightarrow> addr \<times> heap" where
  "alloc v h = (fresh h, \<lparr>vecs = (vecs h)(fresh h := v), fresh = Suc (fresh h)\<rparr>)"

record target_pair =
  dispersed :: addr
  formed :: addr

text \<open>The factory of the \<open>positions\<close> memo, \<open>images.map(() => ...)\<close>; \<open>rnd k\<close> is the
  \<open>k\<close>-th draw of \<open>Math.random()\<close> it makes.\<close>

fun make_positions :: "(nat \<Rightarrow> real) \<Rightarrow> nat \<Rightarrow> string list \<Rightarrow> heap \<Rightarrow> target_pair list \<times> heap" where
  "make_positions rnd k [] h = ([], h)"
| "make_positions rnd k (img # imgs) h =
     (let a = alloc (randomInSphere 30 (rnd k) (rnd (k + 1)) (rnd (k + 2))) h;
          b = alloc (randomInHeart 0.6 (rnd (k + 3)) (rnd (k + 4)) (rnd (k + 5))) (snd a);
          r = make_positions rnd (k + 6) imgs (snd b)
      in (\<lparr>dispersed = fst a, formed = fst b\<rparr> # fst r, snd r))"

text \<open>\<open>Matrix4.elements\<close>, sixteen numbers in column-major order, and
  \<open>Vector3.applyMatrix4\<close>. (Where the divisor is zero JavaScript divides to an infinity
  and HOL to zero; the world matrix of a group is affine and the divisor is 1.)\<close>

type_synonym Matrix4 = "real list"

definition applyMatrix4 :: "Vector3 \<Rightarrow> Matrix4 \<Rightarrow> Vector3" where
  "applyMatrix4 v e =
     (let x = vx v; y = vy v; z = vz v;
          w = 1 / (e ! 3 * x + e ! 7 * y + e ! 11 * z + e ! 15)
      in Vector3_new ((e ! 0 * x + e ! 4 * y + e ! 8 * z + e ! 12) * w)
                     ((e ! 1 * x + e ! 5 * y + e ! 9 * z + e ! 13) * w)
                     ((e ! 2 * x + e ! 6 * y + e ! 10 * z + e ! 14) * w))"

record focus_state =
  activeIndex :: nat
  viewCounts :: "nat \<rightharpoonup> nat"
  previousState :: GestureState

text \<open>\<open>viewCounts[idx] || 0\<close>\<close>

definition view_count :: "(nat \<rightharpoonup> nat) \<Rightarrow> nat \<Rightarrow> nat" where
  "view_count vc idx = (case vc idx of None \<Rightarrow> 0 | Some c \<Rightarrow> c)"

definition cameraPos :: Vector3 where
  "cameraPos = Vector3_new 0 0 30"

definition photo_score :: "heap \<Rightarrow> Matrix4 \<Rightarrow> (nat \<rightharpoonup> nat) \<Rightarrow> addr list \<Rightarrow> nat \<Rightarrow> real" where
  "photo_score h matrixWorld vc sourceLocalPositions idx =
     (let localPos = sourceLocalPositions ! idx;
          worldPos = applyMatrix4 (vecs h localPos) matrixWorld;
          distance = distanceTo worldPos cameraPos;
          count = view_count vc idx
      in distance + real count * 500)"

text \<open>The body of the \<open>forEach\<close>; the accumulator is \<open>(bestIndex, minScore)\<close>, with
  \<open>None\<close> for the initial \<open>Infinity\<close>.\<close>

definition select_step ::
  "heap \<Rightarrow> Matrix4 \<Rightarrow> (nat \<rightharpoonup> nat) \<Rightarrow> addr list \<Rightarrow> nat \<Rightarrow> nat \<times> real option \<Rightarrow> nat \<times> real option" where
  "select_step h matrixWorld vc sourceLocalPositions idx acc =
     (let score = photo_score h matrixWorld vc sourceLocalPositions idx
      in if (case snd acc of None \<Rightarrow> True | Some minScore \<Rightarrow> score < minScore)
         then (idx, Some score) else acc)"

text \<open>
  The effect "Nearest Photo Calculation", run after a render with gesture \<open>gs\<close> and
  \<open>n\<close> images. \<open>inner\<close> is \<open>None\<close> when \<open>innerGroupRef.current\<close> is null, and else the
  world matrix of the inner group as \<open>updateMatrixWorld()\<close> leaves it. The two state
  setters are applied at once.
\<close>

definition focus_effect ::
  "GestureState \<Rightarrow> nat \<Rightarrow> Matrix4 option \<Rightarrow> heap \<Rightarrow> target_pair list \<Rightarrow> focus_state \<Rightarrow> focus_state" where
  "focus_effect gs n inner h positions F =
     (let F1 =
        (if gs = FOCUSED \<and> previousState F \<noteq> FOCUSED then
           (case inner of
              None \<Rightarrow> F
            | Some matrixWorld \<Rightarrow>
                if n > 0 then
                  (let sourceLocalPositions =
                         (if previousState F = FORMED \<or> previousState F = ROTATING
                          then map formed positions else map dispersed positions);
                       bestIndex =
                         fst (fold (select_step h matrixWorld (viewCounts F) sourceLocalPositions)
                                [0..<length sourceLocalPositions] (0, None))
                   in F\<lparr>activeIndex := bestIndex,
                         viewCounts := (viewCounts F)(bestIndex \<mapsto> view_count (viewCounts F) bestIndex + 1)\<rparr>)
                else F)
         else F)
      in F1\<lparr>previousState := gs\<rparr>)"

text \<open>The effect over a run of renders, each with its gesture, image count, inner world
  matrix, store and positions; and the number of entries into FOCUSED in a run of
  gestures that starts after \<open>prev\<close>.\<close>

fun run_effects ::
  "(GestureState \<times> nat \<times> Matrix4 option \<times> heap \<times> target_pair list) list \<Rightarrow> focus_state \<Rightarrow> focus_state" where
  "run_effects [] F = F"
| "run_effects ((gs, n, inner, h, positions) # rs) F = run_effects rs (focus_effect gs n inner h positions F)"

fun entries_into_focus :: "GestureState \<Rightarrow> GestureState list \<Rightarrow> nat" where
  "entries_into_focus prev [] = 0"
| "entries_into_focus prev (g # gs) =
     (if g = FOCUSED \<and> prev \<noteq> FOCUSED then 1 else 0) + entries_into_focus g gs"

definition total_views :: "(nat \<rightharpoonup> nat) \<Rightarrow> nat \<Rightarrow> nat" where
  "total_views vc n = sum_list (map (view_count vc) [0..<n])"

text \<open>A render in which the gallery has \<open>n\<close> images, as many positions, and its inner
  group mounted.\<close>

definition mounted_render :: "nat \<Rightarrow> GestureState \<times> nat \<times> Matrix4 option \<times> heap \<times> target_pair list \<Rightarrow> bool" where
  "mounted_render n r =
     (case r of (gs, n', inner, h, ps) \<Rightarrow> n' = n \<and> inner \<noteq> None \<and> length ps = n)"

text \<open>A gallery of three photos whose dispersed targets lie 10, 5 and 20 from the camera
  anchor, the first two already viewed once, under the identity world matrix.\<close>

definition identity4 :: Matrix4 where
  "identity4 = [1, 0, 0, 0,  0, 1, 0, 0,  0, 0, 1, 0,  0, 0, 0, 1]"

definition sample_heap :: heap where
  "sample_heap =
     \<lparr>vecs = (\<lambda>a. Vector3_new 0 0 0)
               (0 := Vector3_new 0 0 20, 2 := Vector3_new 0 0 25, 4 := Vector3_new 0 0 10),
      fresh = 6\<rparr>"

definition sample_positions :: "target_pair list" where
  "sample_positions =
     [\<lparr>dispersed = 0, formed = 1\<rparr>, \<lparr>dispersed = 2, formed = 3\<rparr>, \<lparr>dispersed = 4, formed = 5\<rparr>]"

definition sample_focus :: focus_state where
  "sample_focus = \<lparr>activeIndex = 0, viewCounts = [0 \<mapsto> 1, 1 \<mapsto> 1], previousState = DISPERSED\<rparr>"

text \<open>Four renders of that gallery: a pinch held for two renders, a fist, a pinch.\<close>

definition sample_run :: "(GestureState \<times> nat \<times> Matrix4 option \<times> heap \<times> target_pair list) list" where
  "sample_run =
     [(FOCUSED, 3, Some identity4, sample_heap, sample_positions),
      (FOCUSED, 3, Some identity4, sample_heap, sample_positions),
      (FORMED, 3, Some identity4, sample_heap, sample_positions),
      (FOCUSED, 3, Some identity4, sample_heap, sample_positions)]"

subsection \<open>Numbers with the special values\<close>

text \<open>
  The scale guard of \<open>PhotoFrame\<close> tests for NaN, so the scale of a mesh and the aspect
  ratio are numbers with the special values of IEEE arithmetic: a real, an infinity or
  NaN. (Rounding, overflow of finite results and the sign of zero are not modelled.)
\<close>

datatype jsnum = Fin real | PInf | NInf | NaN

fun js_add :: "jsnum \<Rightarrow> jsnum \<Rightarrow> jsnum" where
  "js_add NaN b = NaN"
| "js_add a NaN = NaN"
| "js_add (Fin a) (Fin b) = Fin (a + b)"
| "js_add PInf NInf = NaN"
| "js_add NInf PInf = NaN"
| "js_add PInf b = PInf"
| "js_add a PInf = PInf"
| "js_add NInf b = NInf"
| "js_add a NInf = NInf"

fun js_neg :: "jsnum \<Rightarrow> jsnum" where
  "js_neg NaN = NaN"
| "js_neg (Fin a) = Fin (- a)"
| "js_neg PInf = NInf"
| "js_neg NInf = PInf"

definition js_sub :: "jsnum \<Rightarrow> jsnum \<Rightarrow> jsnum" where
  "js_sub a b = js_add a (js_neg b)"

text \<open>The sign of a number: 1, -1, or 0 for zero; only used on numbers that are not NaN.\<close>

fun js_sign :: "jsnum \<Rightarrow> int" where
  "js_sign (Fin a) = (if a > 0 then 1 else if a < 0 then - 1 else 0)"
| "js_sign PInf = 1"
| "js_sign NInf = - 1"
| "js_sign NaN = 0"

fun js_mul :: "jsnum \<Rightarrow> jsnum \<Rightarrow> jsnum" where
  "js_mul NaN b = NaN"
| "js_mul a NaN = NaN"
| "js_mul (Fin a) (Fin b) = Fin (a * b)"
| "js_mul a b =
     (if js_sign a * js_sign b > 0 then PInf
      else if js_sign a * js_sign b < 0 then NInf
      else NaN)"

fun js_gt :: "jsnum \<Rightarrow> jsnum \<Rightarrow> bool" where
  "js_gt NaN b = False"
| "js_gt a NaN = False"
| "js_gt (Fin a) (Fin b) = (a > b)"
| "js_gt PInf PInf = False"
| "js_gt PInf b = True"
| "js_gt a PInf = False"
| "js_gt NInf b = False"
| "js_gt a NInf = True"

fun isNaN :: "jsnum \<Rightarrow> bool" where
  "isNaN NaN = True"
| "isNaN a = False"

text \<open>\<open>MathUtils.lerp\<close> on such numbers.\<close>

definition js_lerp :: "jsnum \<Rightarrow> jsnum \<Rightarrow> jsnum \<Rightarrow> jsnum" where
  "js_lerp x y t = js_add (js_mul (js_sub (Fin 1) t) x) (js_mul t y)"

subsection \<open>Rotations: the parts of three.js behind \<open>worldToLocal\<close> and \<open>getWorldQuaternion\<close>\<close>

record Quaternion =
  qx :: real
  qy :: real
  qz :: real
  qw :: real

text \<open>\<open>Quaternion.setFromEuler\<close> for the default order XYZ: a group keeps its quaternion
  in step with its Euler angles.\<close>

definition setFromEuler :: "Euler \<Rightarrow> Quaternion" where
  "setFromEuler e =
     (let c1 = cos (ex e / 2); c2 = cos (ey e / 2); c3 = cos (ez e / 2);
          s1 = sin (ex e / 2); s2 = sin (ey e / 2); s3 = sin (ez e / 2)
      in \<lparr>qx = s1 * c2 * c3 + c1 * s2 * s3,
          qy = c1 * s2 * c3 - s1 * c2 * s3,
          qz = c1 * c2 * s3 + s1 * s2 * c3,
          qw = c1 * c2 * c3 - s1 * s2 * s3\<rparr>)"

definition multiplyQuaternions :: "Quaternion \<Rightarrow> Quaternion \<Rightarrow> Quaternion" where
  "multiplyQuaternions a b =
     \<lparr>qx = qx a * qw b + qw a * qx b + qy a * qz b - qz a * qy b,
      qy = qy a * qw b + qw a * qy b + qz a * qx b - qx a * qz b,
      qz = qz a * qw b + qw a * qz b + qx a * qy b - qy a * qx b,
      qw = qw a * qw b - qx a * qx b - qy a * qy b - qz a * qz b\<rparr>"

text \<open>\<open>Quaternion.invert\<close>: the conjugate (three.js takes the quaternion to be of unit
  length).\<close>

definition invertQ :: "Quaternion \<Rightarrow> Quaternion" where
  "invertQ q = \<lparr>qx = - qx q, qy = - qy q, qz = - qz q, qw = qw q\<rparr>"

text \<open>The rotation that \<open>Matrix4.compose\<close> builds from a quaternion (with unit scale),
  applied to a vector.\<close>

definition applyRotation :: "Quaternion \<Rightarrow> Vector3 \<Rightarrow> Vector3" where
  "applyRotation q v =
     (let x = qx q; y = qy q; z = qz q; w = qw q;
          x2 = x + x; y2 = y + y; z2 = z + z;
          xx = x * x2; xy = x * y2; xz = x * z2;
          yy = y * y2; yz = y * z2; zz = z * z2;
          wx = w * x2; wy = w * y2; wz = w * z2
      in Vector3_new ((1 - (yy + zz)) * vx v + (xy - wz) * vy v + (xz + wy) * vz v)
                     ((xy + wz) * vx v + (1 - (xx + zz)) * vy v + (yz - wx) * vz v)
                     ((xz - wy) * vx v + (yz + wx) * vy v + (1 - (xx + yy)) * vz v))"

definition add3 :: "Vector3 \<Rightarrow> Vector3 \<Rightarrow> Vector3" where
  "add3 a b = Vector3_new (vx a + vx b) (vy a + vy b) (vz a + vz b)"

definition sub3 :: "Vector3 \<Rightarrow> Vector3 \<Rightarrow> Vector3" where
  "sub3 a b = Vector3_new (vx a - vx b) (vy a - vy b) (vz a - vz b)"

text \<open>
  The parent of a photo is the inner group of the gallery, whose parent is the outer
  group, which sits in the scene untransformed; the groups have unit scale. A pair
  \<open>(outer, inner)\<close> stands for the inner group with its parent. The world matrix of the
  inner group is translation and rotation of the outer group after those of the inner
  one; three.js inverts that matrix numerically, the model composes the inverse
  motions. \<open>getWorldQuaternion\<close> reads the rotation back from the world matrix, which
  fixes it up to sign; the model takes the product of the two quaternions.
\<close>

definition localToWorld :: "Group \<times> Group \<Rightarrow> Vector3 \<Rightarrow> Vector3" where
  "localToWorld parent v =
     (let outer = fst parent; inner = snd parent
      in add3 (g_position outer)
           (applyRotation (setFromEuler (g_rotation outer))
              (add3 (g_position inner) (applyRotation (setFromEuler (g_rotation inner)) v))))"

definition worldToLocal :: "Group \<times> Group \<Rightarrow> Vector3 \<Rightarrow> Vector3" where
  "worldToLocal parent v =
     (let outer = fst parent; inner = snd parent
      in applyRotation (invertQ (setFromEuler (g_rotation inner)))
           (sub3 (applyRotation (invertQ (setFromEuler (g_rotation outer))) (sub3 v (g_position outer)))
                 (g_position inner)))"

definition getWorldQuaternion :: "Group \<times> Group \<Rightarrow> Quaternion" where
  "getWorldQuaternion parent =
     multiplyQuaternions (setFromEuler (g_rotation (fst parent))) (setFromEuler (g_rotation (snd parent)))"

subsection \<open>PhotoFrame\<close>

record scale3 =
  sx :: jsnum
  sy :: jsnum
  sz :: jsnum

record Mesh =
  m_position :: Vector3
  m_scale :: scale3
  m_rotation :: Euler
  m_quaternion :: Quaternion
  m_opacity :: real
  m_renderOrder :: nat

text \<open>
  Two computations of three.js enter as they are, as arguments: the Euler angles it
  derives from a quaternion it is given (\<open>rotation\<close> follows \<open>quaternion\<close>), and the
  quaternion \<open>lookAt\<close> computes for a mesh and a target.
\<close>

record threejs =
  euler_of_quaternion :: "Quaternion \<Rightarrow> Euler"
  lookAt_quaternion :: "Vector3 \<Rightarrow> Mesh \<Rightarrow> Quaternion"

definition set_rotation :: "Euler \<Rightarrow> Mesh \<Rightarrow> Mesh" where
  "set_rotation e mesh = mesh\<lparr>m_rotation := e, m_quaternion := setFromEuler e\<rparr>"

definition set_quaternion :: "threejs \<Rightarrow> Quaternion \<Rightarrow> Mesh \<Rightarrow> Mesh" where
  "set_quaternion three q mesh = mesh\<lparr>m_quaternion := q, m_rotation := euler_of_quaternion three q\<rparr>"

text \<open>The props of a \<open>PhotoFrame\<close>; \<open>targetPos\<close> is the target object the gallery passes,
  \<open>parentGroupRef\<close> the inner group with its parent, \<open>None\<close> while the ref is null.\<close>

record photo_props =
  targetPos :: addr
  isFocused :: bool
  p_gestureState :: GestureState
  parentGroupRef :: "(Group \<times> Group) option"
  visible :: bool

text \<open>The component's own state: the mesh (\<open>None\<close> while the ref is null), the
  \<open>position\<close> ref, a \<open>Vector3\<close> object of its own, and the aspect ratio.\<close>

record PhotoFrame =
  p_meshRef :: "Mesh option"
  p_position :: addr
  p_aspect :: jsnum

definition targetWorldPos :: Vector3 where
  "targetWorldPos = Vector3_new 0 0 20"

text \<open>\<open>isFocused && parentGroup\<close>\<close>

definition focused_parent :: "photo_props \<Rightarrow> (Group \<times> Group) option" where
  "focused_parent props = (if isFocused props then parentGroupRef props else None)"

text \<open>"Calculate Destination": \<open>dest\<close>, \<open>targetScale\<close> and \<open>targetRot\<close>, from the value
  of the target object and of \<open>position.current\<close>. \<open>dest\<close> is a new vector, a copy.\<close>

definition photo_destination ::
  "photo_props \<Rightarrow> real \<Rightarrow> Vector3 \<Rightarrow> Vector3 \<Rightarrow> Vector3 \<times> real \<times> Euler" where
  "photo_destination props time target pos =
     (let dest = target
      in case focused_parent props of
           Some parentGroup \<Rightarrow>
             (worldToLocal parentGroup targetWorldPos, 8, \<lparr>ex = 0, ey = 0, ez = 0\<rparr>)
         | None \<Rightarrow>
             if p_gestureState props = FOCUSED then
               (dest\<lparr>vz := vz dest - 40\<rparr>, 0.5, \<lparr>ex = 0, ey = 0, ez = 0\<rparr>)
             else if p_gestureState props = FORMED \<or> p_gestureState props = ROTATING then
               (dest, 1.2, \<lparr>ex = 0, ey = time * 0.2, ez = 0\<rparr>)
             else
               (dest\<lparr>vy := vy dest + sin (time + vx pos) * 2\<rparr>, 3,
                \<lparr>ex = sin (time * 0.1), ey = cos (time * 0.1), ez = 0\<rparr>))"

text \<open>"Apply Scale"\<close>

definition apply_scale :: "real \<Rightarrow> real \<Rightarrow> jsnum \<Rightarrow> Mesh \<Rightarrow> Mesh" where
  "apply_scale targetScale damping aspect mesh =
     (let currentScale = sy (m_scale mesh);
          nextScale = js_lerp currentScale (Fin targetScale) (Fin damping)
      in if \<not> isNaN nextScale \<and> js_gt nextScale (Fin 0.001)
         then mesh\<lparr>m_scale := \<lparr>sx = js_mul nextScale aspect, sy = nextScale, sz = Fin 1\<rparr>\<rparr>
         else mesh)"

text \<open>"Apply Rotation"\<close>

definition apply_rotation :: "threejs \<Rightarrow> photo_props \<Rightarrow> Euler \<Rightarrow> real \<Rightarrow> Vector3 \<Rightarrow> Mesh \<Rightarrow> Mesh" where
  "apply_rotation three props targetRot damping camera mesh =
     (case focused_parent props of
        Some parentGroup \<Rightarrow>
          (let parentWorldQuat = getWorldQuaternion parentGroup
           in set_quaternion three (invertQ parentWorldQuat) mesh)
      | None \<Rightarrow>
          (let m1 = set_rotation ((m_rotation mesh)\<lparr>ex := lerp (ex (m_rotation mesh)) (ex targetRot) damping\<rparr>) mesh;
               m2 = set_rotation ((m_rotation m1)\<lparr>ey := lerp (ey (m_rotation m1)) (ey targetRot) damping\<rparr>) m1;
               m3 = set_rotation ((m_rotation m2)\<lparr>ez := lerp (ez (m_rotation m2)) (ez targetRot) damping\<rparr>) m2
           in if p_gestureState props = DISPERSED
              then set_quaternion three (lookAt_quaternion three camera m3) m3
              else m3))"

text \<open>"Opacity & Visibility Control"\<close>

definition apply_opacity :: "photo_props \<Rightarrow> real \<Rightarrow> Mesh \<Rightarrow> Mesh" where
  "apply_opacity props damping mesh =
     (let targetOpacity =
            (if \<not> visible props then 0
             else if p_gestureState props = FOCUSED \<and> \<not> isFocused props then 0.1
             else 0.9)
      in mesh\<lparr>m_opacity := lerp (m_opacity mesh) targetOpacity damping,
              m_renderOrder := (if isFocused props then 999 else 1)\<rparr>)"

text \<open>The frame callback of a \<open>PhotoFrame\<close>, at elapsed time \<open>time\<close> with the camera at
  \<open>camera\<close>.\<close>

definition photoFrame_useFrame ::
  "threejs \<Rightarrow> real \<Rightarrow> Vector3 \<Rightarrow> photo_props \<Rightarrow> PhotoFrame \<Rightarrow> heap \<Rightarrow> PhotoFrame \<times> heap" where
  "photoFrame_useFrame three time camera props F h =
     (case p_meshRef F of
        None \<Rightarrow> (F, h)
      | Some mesh \<Rightarrow>
          (let damping = 0.08;
               target = photo_destination props time (vecs h (targetPos props)) (vecs h (p_position F));
               dest = fst target;
               targetScale = fst (snd target);
               targetRot = snd (snd target);
               pos = lerp3 (vecs h (p_position F)) dest damping;
               h' = h\<lparr>vecs := (vecs h)(p_position F := pos)\<rparr>;
               m1 = mesh\<lparr>m_position := pos\<rparr>;
               m2 = apply_scale targetScale damping (p_aspect F) m1;
               m3 = apply_rotation three props targetRot damping camera m2;
               m4 = apply_opacity props damping m3
           in (F\<lparr>p_meshRef := Some m4\<rparr>, h')))"

text \<open>A run of frames of one \<open>PhotoFrame\<close>, each with its time, camera position and
  props.\<close>

fun photoFrame_frames ::
  "threejs \<Rightarrow> (real \<times> Vector3 \<times> photo_props) list \<Rightarrow> PhotoFrame \<Rightarrow> heap \<Rightarrow> PhotoFrame \<times> heap" where
  "photoFrame_frames three [] F h = (F, h)"
| "photoFrame_frames three ((time, camera, props) # fs) F h =
     (let r = photoFrame_useFrame three time camera props F h
      in photoFrame_frames three fs (fst r) (snd r))"

text \<open>The mesh as it is mounted: at the \<open>position\<close> ref, with the default scale and
  rotation of an object and the opacity 0 of its material.\<close>

definition mounted_mesh :: "Vector3 \<Rightarrow> Mesh" where
  "mounted_mesh pos =
     \<lparr>m_position = pos,
      m_scale = \<lparr>sx = Fin 1, sy = Fin 1, sz = Fin 1\<rparr>,
      m_rotation = \<lparr>ex = 0, ey = 0, ez = 0\<rparr>,
      m_quaternion = \<lparr>qx = 0, qy = 0, qz = 0, qw = 1\<rparr>,
      m_opacity = 0,
      m_renderOrder = 0\<rparr>"



text \<open>\<open>Quaternion.lengthSq\<close>, and the rotation of \<open>applyRotation\<close> written with
  homogeneous coefficients (the two agree on quaternions of unit length).\<close>

definition lengthSq :: "Quaternion \<Rightarrow> real" where
  "lengthSq q = qx q * qx q + qy q * qy q + qz q * qz q + qw q * qw q"

definition rotateH :: "Quaternion \<Rightarrow> Vector3 \<Rightarrow> Vector3" where
  "rotateH q v =
     (let x = qx q; y = qy q; z = qz q; w = qw q
      in Vector3_new
           ((w * w + x * x - y * y - z * z) * vx v + 2 * (x * y - w * z) * vy v + 2 * (x * z + w * y) * vz v)
           (2 * (x * y + w * z) * vx v + (w * w - x * x + y * y - z * z) * vy v + 2 * (y * z - w * x) * vz v)
           (2 * (x * z - w * y) * vx v + 2 * (y * z + w * x) * vy v + (w * w - x * x - y * y + z * z) * vz v))"

text \<open>Sample frames: a library stub, a camera, a photo that is not focused in the
  DISPERSED state, one mounted frame with aspect 1.5 and one whose scale is NaN, and a
  focused photo under an inner group turned half way round the y axis.\<close>

definition sample_three :: threejs where
  "sample_three =
     \<lparr>euler_of_quaternion = (\<lambda>q. \<lparr>ex = 0, ey = 0, ez = 0\<rparr>),
      lookAt_quaternion = (\<lambda>c m. \<lparr>qx = 0, qy = 0, qz = 0, qw = 1\<rparr>)\<rparr>"

definition sample_props :: photo_props where
  "sample_props =
     \<lparr>targetPos = 0, isFocused = False, p_gestureState = DISPERSED, parentGroupRef = None,
      visible = True\<rparr>"

definition sample_frame :: PhotoFrame where
  "sample_frame =
     \<lparr>p_meshRef = Some (mounted_mesh (Vector3_new 0 0 0)), p_position = 6, p_aspect = Fin 1.5\<rparr>"


definition sample_parent :: "Group \<times> Group" where
  "sample_parent =
     (\<lparr>g_position = Vector3_new 1 2 3, g_rotation = \<lparr>ex = 0, ey = 0, ez = 0\<rparr>\<rparr>,
      \<lparr>g_position = Vector3_new 0 0 0, g_rotation = \<lparr>ex = 0, ey = pi, ez = 0\<rparr>\<rparr>)"

definition sample_focused_props :: photo_props where
  "sample_focused_props =
     \<lparr>targetPos = 0, isFocused = True, p_gestureState = FOCUSED,
      parentGroupRef = Some sample_parent, visible = True\<rparr>"

subsection \<open>Creating the targets: the memos and the upload\<close>

text \<open>
  \<open>useMemo(factory, deps)\<close>: the cell of the hook holds the dependencies and the value
  of the last computation; the factory runs on the first render and whenever the
  dependencies differ (\<open>Object.is\<close>) from the stored ones. The factory may allocate in
  the store \<open>h\<close>.
\<close>

definition useMemo :: "('h \<Rightarrow> 'v \<times> 'h) \<Rightarrow> 'd \<Rightarrow> ('d \<times> 'v) option \<Rightarrow> 'h \<Rightarrow> ('d \<times> 'v) \<times> 'h" where
  "useMemo factory deps cell h =
     (case cell of
        None \<Rightarrow> (let r = factory h in ((deps, fst r), snd r))
      | Some c \<Rightarrow>
          if fst c = deps then (c, h)
          else (let r = factory h in ((deps, fst r), snd r)))"

text \<open>The \<open>images\<close> state of \<open>App\<close>: the array of data URLs, and which array object it is
  (\<open>setImages\<close> always installs a new array).\<close>

record images_state =
  images :: "string list"
  images_id :: nat

definition handleFileUpload :: "string list \<Rightarrow> images_state \<Rightarrow> images_state" where
  "handleFileUpload loadedImages s =
     (if length loadedImages > 0
      then \<lparr>images = images s @ loadedImages, images_id = Suc (images_id s)\<rparr>
      else s)"

text \<open>The \<open>positions\<close> memo of \<open>PhotoGallery\<close>, with its dependency \<open>[images]\<close>.\<close>

definition gallery_positions ::
  "(nat \<Rightarrow> real) \<Rightarrow> images_state \<Rightarrow> (nat \<times> target_pair list) option \<Rightarrow> heap
     \<Rightarrow> (nat \<times> target_pair list) \<times> heap" where
  "gallery_positions rnd imgs cell h =
     useMemo (make_positions rnd 0 (images imgs)) (images_id imgs) cell h"

text \<open>The typed arrays of \<open>HeartParticles\<close>, with the address \<open>new\<close> hands out next.\<close>

record array_store =
  arrays :: buffers
  next_array :: addr

definition new_Float32Array :: "real list \<Rightarrow> array_store \<Rightarrow> addr \<times> array_store" where
  "new_Float32Array xs s =
     (next_array s, \<lparr>arrays = (arrays s)(next_array s := xs), next_array = Suc (next_array s)\<rparr>)"

text \<open>The memo of \<open>HeartParticles\<close>, with no dependencies. One pass of its loop makes eight
  draws. The colours are kept as the hexadecimal numbers given to \<open>setHex\<close>; they and
  the phases are never written again and are values here.\<close>

record particle_targets =
  t_heartPositions :: addr
  t_dispersedPositions :: addr
  t_colors :: "nat list"
  t_randomPhases :: "real list"

definition fill_particle ::
  "(nat \<Rightarrow> real) \<Rightarrow> nat \<Rightarrow> real list \<times> real list \<times> nat list \<times> real list
     \<Rightarrow> real list \<times> real list \<times> nat list \<times> real list" where
  "fill_particle rnd i st =
     (let hPos = fst st; dPos = fst (snd st); cols = fst (snd (snd st)); phases = snd (snd (snd st));
          k = i * 8;
          h = randomInHeart 0.6 (rnd k) (rnd (k + 1)) (rnd (k + 2));
          d = randomInSphere 40 (rnd (k + 3)) (rnd (k + 4)) (rnd (k + 5));
          r = rnd (k + 6);
          hex = (if r > 0.9 then 0xffffff else if r > 0.6 then 0x38bdf8
                 else if r > 0.3 then 0x0ea5e9 else 0x0284c7)
      in (hPos[i * 3 := vx h, i * 3 + 1 := vy h, i * 3 + 2 := vz h],
          dPos[i * 3 := vx d, i * 3 + 1 := vy d, i * 3 + 2 := vz d],
          cols[i := hex],
          phases[i := rnd (k + 7) * pi * 2]))"

definition particles_factory :: "(nat \<Rightarrow> real) \<Rightarrow> array_store \<Rightarrow> particle_targets \<times> array_store" where
  "particles_factory rnd s =
     (let filled = fold (fill_particle rnd) [0..<COUNT]
                     (replicate (COUNT * 3) 0, replicate (COUNT * 3) 0, replicate COUNT 0, replicate COUNT 0);
          a = new_Float32Array (fst filled) s;
          b = new_Float32Array (fst (snd filled)) (snd a)
      in (\<lparr>t_heartPositions = fst a, t_dispersedPositions = fst b,
           t_colors = fst (snd (snd filled)), t_randomPhases = snd (snd (snd filled))\<rparr>, snd b))"

text \<open>The first render of \<open>HeartParticles\<close>: the memo, and the \<open>currentPositions\<close> ref, a
  copy of the dispersed buffer.\<close>

definition particles_mount :: "(nat \<Rightarrow> real) \<Rightarrow> array_store \<Rightarrow> HeartParticles \<times> array_store" where
  "particles_mount rnd s =
     (let m = useMemo (particles_factory rnd) () None s;
          t = snd (fst m);
          c = new_Float32Array (arrays (snd m) (t_dispersedPositions t)) (snd m)
      in (\<lparr>meshRef = None, groupRef = None,
           heartPositions = t_heartPositions t, dispersedPositions = t_dispersedPositions t,
           currentPositions = fst c, randomPhases = t_randomPhases t\<rparr>, snd c))"

text \<open>A gallery of one photo whose draws were all 0, into which a second photo is
  uploaded; the next render draws 0, 1/2, 1/8 and then zeros.\<close>

definition upload_before :: "(nat \<times> target_pair list) \<times> heap" where
  "upload_before =
     gallery_positions (\<lambda>k. 0) \<lparr>images = [''a''], images_id = 0\<rparr> None
       \<lparr>vecs = (\<lambda>a. Vector3_new 0 0 0), fresh = 0\<rparr>"

definition upload_after :: "(nat \<times> target_pair list) \<times> heap" where
  "upload_after =
     gallery_positions (\<lambda>k. if k = 1 then 1 / 2 else if k = 2 then 1 / 8 else 0)
       (handleFileUpload [''b''] \<lparr>images = [''a''], images_id = 0\<rparr>)
       (Some (fst upload_before)) (snd upload_before)"

text \<open>Particles whose three buffers are the arrays 0, 1 and 2.\<close>

definition sample_particles :: HeartParticles where
  "sample_particles =
     \<lparr>meshRef = Some \<lparr>pm_rotation_y = 0, pm_opacity = 1, pm_instances = []\<rparr>,
      groupRef = Some \<lparr>g_position = Vector3_new 0 0 0, g_rotation = \<lparr>ex = 0, ey = 0, ez = 0\<rparr>\<rparr>,
      heartPositions = 0, dispersedPositions = 1, currentPositions = 2, randomPhases = []\<rparr>"

section \<open>Properties\<close>

subsection \<open>The gesture classifier\<close>

lemma detectGesture_present:
  assumes "21 \<le> length hand"
  shows "detectGesture (Some (hand # others)) =
           Inr (cascade (dist2 (hand ! 4) (hand ! 8))
                        (dist2 (hand ! 8) (hand ! 0))
                        (dist2 (hand ! 12) (hand ! 0))
                        (dist2 (hand ! 16) (hand ! 0))
                        (dist2 (hand ! 20) (hand ! 0)))"
proof -
  have ne: "hand \<noteq> []" using assms by auto
  have a: "at_index hand 0 = Some (hand ! 0)" "at_index hand 4 = Some (hand ! 4)"
    "at_index hand 8 = Some (hand ! 8)" "at_index hand 12 = Some (hand ! 12)"
    "at_index hand 16 = Some (hand ! 16)" "at_index hand 20 = Some (hand ! 20)"
    using assms ne by (simp_all add: at_index_def)
  show ?thesis
    by (simp add: detectGesture_def a dist_def and_then_def dist2_def cascade_def Let_def)
qed

lemma detectGesture_short:
  assumes "length hand < 21"
  shows "detectGesture (Some (hand # others)) = Inl TypeError"
  using assms
  by (auto simp add: detectGesture_def at_index_def dist_def and_then_def Let_def)

lemma cascade_not_LOADING: "cascade a b c d e \<noteq> LOADING"
  by (simp add: cascade_def)

lemma detectGesture_not_LOADING: "detectGesture l \<noteq> Inr LOADING"
proof (cases l)
  case None
  then show ?thesis by (simp add: detectGesture_def)
next
  case (Some hs)
  show ?thesis
  proof (cases hs)
    case Nil
    with Some show ?thesis by (simp add: detectGesture_def)
  next
    case (Cons hand others)
    show ?thesis
    proof (cases "21 \<le> length hand")
      case True
      then show ?thesis
        using Some Cons detectGesture_present [OF True, of others] cascade_not_LOADING by simp
    next
      case False
      then have "length hand < 21" by simp
      then show ?thesis using Some Cons detectGesture_short by simp
    qed
  qed
qed

lemma planar_nth:
  assumes "map planar h' = map planar h" and "i < length h"
  shows "lx (h' ! i) = lx (h ! i) \<and> ly (h' ! i) = ly (h ! i)"
proof -
  have len: "length h' = length h" using assms(1) by (metis length_map)
  have "map planar h' ! i = map planar h ! i" using assms(1) by simp
  then have "planar (h' ! i) = planar (h ! i)" using assms(2) len by simp
  then show ?thesis by (simp add: planar_def)
qed

lemma dist2_planar:
  assumes "lx a' = lx a \<and> ly a' = ly a" and "lx b' = lx b \<and> ly b' = ly b"
  shows "dist2 a' b' = dist2 a b"
  using assms by (simp add: dist2_def)

text \<open>
  C1. With a hand of 21 landmarks (or more) first in the list, \<open>detectGesture\<close> returns
  the first match of the cascade FOCUSED, ROTATING, FORMED, DISPERSED, applied to the
  planar distance of thumb tip and index tip and the planar distances of the index, middle,
  ring and pinky tips to the wrist. A null or empty list of hands gives DISPERSED and no
  error. The result does not depend on any \<open>z\<close> coordinate (nor on further hands), and
  LOADING is never returned, whatever the argument.

  The list of hands is what the claim's absent or empty pose is read as; a first hand
  with fewer than 21 landmarks is neither, and \<open>detectGesture_short\<close> shows that the
  code throws on it.
\<close>

theorem detectGesture_cascade:
  assumes "21 \<le> length hand"
  shows "detectGesture (Some (hand # others)) =
           Inr (cascade (dist2 (hand ! 4) (hand ! 8))
                        (dist2 (hand ! 8) (hand ! 0))
                        (dist2 (hand ! 12) (hand ! 0))
                        (dist2 (hand ! 16) (hand ! 0))
                        (dist2 (hand ! 20) (hand ! 0)))
       \<and> detectGesture None = Inr DISPERSED
       \<and> detectGesture (Some []) = Inr DISPERSED
       \<and> (\<forall>hand' others'. map planar hand' = map planar hand \<longrightarrow>
             detectGesture (Some (hand' # others')) = detectGesture (Some (hand # others)))
       \<and> (\<forall>l. detectGesture l \<noteq> Inr LOADING)"
proof -
  have z: "detectGesture (Some (hand' # others')) = detectGesture (Some (hand # others))"
    if eq: "map planar hand' = map planar hand" for hand' others'
  proof -
    have len: "length hand' = length hand" using eq by (metis length_map)
    then have l': "21 \<le> length hand'" using assms by simp
    have p: "\<And>i. i < length hand \<Longrightarrow> lx (hand' ! i) = lx (hand ! i) \<and> ly (hand' ! i) = ly (hand ! i)"
      using planar_nth [OF eq] by blast
    have p0: "lx (hand' ! 0) = lx (hand ! 0) \<and> ly (hand' ! 0) = ly (hand ! 0)" 
    proof -
      have "0 < length hand" using assms by linarith
      then show ?thesis by (rule p)
    qed
    have p4: "lx (hand' ! 4) = lx (hand ! 4) \<and> ly (hand' ! 4) = ly (hand ! 4)" using p assms by simp
    have p8: "lx (hand' ! 8) = lx (hand ! 8) \<and> ly (hand' ! 8) = ly (hand ! 8)" using p assms by simp
    have p12: "lx (hand' ! 12) = lx (hand ! 12) \<and> ly (hand' ! 12) = ly (hand ! 12)" using p assms by simp
    have p16: "lx (hand' ! 16) = lx (hand ! 16) \<and> ly (hand' ! 16) = ly (hand ! 16)" using p assms by simp
    have p20: "lx (hand' ! 20) = lx (hand ! 20) \<and> ly (hand' ! 20) = ly (hand ! 20)" using p assms by simp
    show ?thesis
      unfolding detectGesture_present [OF l'] detectGesture_present [OF assms]
      by (simp add: dist2_planar [OF p4 p8] dist2_planar [OF p8 p0] dist2_planar [OF p12 p0]
                    dist2_planar [OF p16 p0] dist2_planar [OF p20 p0])
  qed
  show ?thesis
    using detectGesture_present [OF assms, of others] z detectGesture_not_LOADING
    by (simp add: detectGesture_def)
qed

lemma dist2_same_y: "ly a = ly b \<Longrightarrow> dist2 a b = \<bar>lx a - lx b\<bar>"
  by (simp add: dist2_def)

lemma pinch_pose_nth:
  "pinch_pose ! 0 = \<lparr>lx = 0, ly = 0, lz = 0\<rparr>"
  "pinch_pose ! 4 = \<lparr>lx = 0.34, ly = 0, lz = 0.1\<rparr>"
  "pinch_pose ! 8 = \<lparr>lx = 0.3, ly = 0, lz = 0.2\<rparr>"
  "pinch_pose ! 12 = \<lparr>lx = 0.3, ly = 0, lz = 0\<rparr>"
  "pinch_pose ! 16 = \<lparr>lx = 0.1, ly = 0, lz = 0\<rparr>"
  "pinch_pose ! 20 = \<lparr>lx = 0.1, ly = 0, lz = 0\<rparr>"
  by (simp_all add: pinch_pose_def)

theorem detectGesture_cascade_witness:
  "21 \<le> length pinch_pose
   \<and> detectGesture (Some [pinch_pose]) = Inr FOCUSED
   \<and> detectGesture (Some [map (\<lambda>l. l\<lparr>lz := 1\<rparr>) pinch_pose, []]) = Inr FOCUSED"
proof -
  have len: "21 \<le> length pinch_pose" by (simp add: pinch_pose_def)
  have pl: "map planar (map (\<lambda>l. l\<lparr>lz := 1\<rparr>) pinch_pose) = map planar pinch_pose"
    by (simp add: planar_def)
  have c: "cascade (dist2 (pinch_pose ! 4) (pinch_pose ! 8))
                   (dist2 (pinch_pose ! 8) (pinch_pose ! 0))
                   (dist2 (pinch_pose ! 12) (pinch_pose ! 0))
                   (dist2 (pinch_pose ! 16) (pinch_pose ! 0))
                   (dist2 (pinch_pose ! 20) (pinch_pose ! 0)) = FOCUSED"
    by (simp add: pinch_pose_nth dist2_same_y cascade_def)
  from detectGesture_cascade [OF len, of "[]"] pl c len show ?thesis
    by simp
qed

subsection \<open>The samplers\<close>

lemma sphere_sum_squares:
  fixes r s c ct st :: real
  assumes "s * s + c * c = 1" and "ct * ct + st * st = 1"
  shows "(r * s * ct) * (r * s * ct) + (r * s * st) * (r * s * st) + (r * c) * (r * c) = r * r"
proof -
  have "(r * s * ct) * (r * s * ct) + (r * s * st) * (r * s * st) + (r * c) * (r * c)
      = r * r * (s * s * (ct * ct + st * st) + c * c)"
    by (simp add: algebra_simps)
  also have "\<dots> = r * r"
    using assms by simp
  finally show ?thesis .
qed

lemma sin_cos_unit: "sin (a::real) * sin a + cos a * cos a = 1"
  using sin_cos_squared_add [of a] by (simp add: power2_eq_square)

lemma cos_sin_unit: "cos (a::real) * cos a + sin a * sin a = 1"
  using sin_cos_unit [of a] by simp

lemma length3_randomInSphere:
  "length3 (randomInSphere radius u v w) = \<bar>root 3 w * radius\<bar>"
proof -
  let ?r = "root 3 w * radius"
  let ?phi = "arccos (2 * v - 1)"
  let ?th = "2 * pi * u"
  have "(?r * sin ?phi * cos ?th) * (?r * sin ?phi * cos ?th)
      + (?r * sin ?phi * sin ?th) * (?r * sin ?phi * sin ?th)
      + (?r * cos ?phi) * (?r * cos ?phi) = ?r * ?r"
    by (rule sphere_sum_squares [OF sin_cos_unit cos_sin_unit])
  then show ?thesis
    by (simp add: length3_def randomInSphere_def Vector3_new_def Let_def)
qed

text \<open>
  C8. For every radius \<open>\<ge> 0\<close> and every outcome of the three draws in \<open>[0,1)\<close>, the
  point of \<open>randomInSphere\<close> has Euclidean norm \<open>radius * cbrt w\<close>, \<open>w\<close> the radial
  draw; the direction (polar angle \<open>arccos (2v - 1)\<close>, azimuth \<open>2 pi u\<close>) has norm one;
  hence the norm is at most the radius.
\<close>

theorem randomInSphere_norm:
  assumes "0 \<le> radius"
    and "0 \<le> u" "u < 1" and "0 \<le> v" "v < 1" and "0 \<le> w" "w < 1"
  shows "length3 (randomInSphere radius u v w) = radius * root 3 w
       \<and> length3 (Vector3_new (sin (arccos (2 * v - 1)) * cos (2 * pi * u))
                               (sin (arccos (2 * v - 1)) * sin (2 * pi * u))
                               (cos (arccos (2 * v - 1)))) = 1
       \<and> length3 (randomInSphere radius u v w) \<le> radius"
proof -
  have r0: "0 \<le> root 3 w" using assms by simp
  have r1: "root 3 w \<le> 1"
    using real_root_le_iff [of 3 w 1] assms by simp
  have n: "length3 (randomInSphere radius u v w) = radius * root 3 w"
    using r0 assms(1) by (simp add: length3_randomInSphere abs_mult mult.commute)
  have d: "length3 (randomInSphere 1 u v 1) = 1"
    by (simp add: length3_randomInSphere)
  have d': "length3 (Vector3_new (sin (arccos (2 * v - 1)) * cos (2 * pi * u))
                               (sin (arccos (2 * v - 1)) * sin (2 * pi * u))
                               (cos (arccos (2 * v - 1)))) = 1"
    using d by (simp add: randomInSphere_def Let_def)
  have "radius * root 3 w \<le> radius * 1"
    using r1 assms(1) by (rule mult_left_mono)
  with n d' show ?thesis by simp
qed

lemma root3_eighth: "root 3 (1 / 8) = (1 / 2 :: real)"
proof -
  have "root 3 ((1 / 2 :: real) ^ 3) = 1 / 2"
    by (rule real_root_power_cancel) simp_all
  then show ?thesis by (simp add: power3_eq_cube)
qed

theorem randomInSphere_norm_witness:
  "length3 (randomInSphere 30 0 (1 / 2) (1 / 8)) = 15
   \<and> length3 (randomInSphere 30 0 (1 / 2) (1 / 8)) \<le> 30"
  using randomInSphere_norm [of 30 0 "1 / 2" "1 / 8"] by (simp add: root3_eighth)

text \<open>
  C9. \<open>randomInHeart\<close> is homogeneous in its scale: with the three draws fixed,
  each coordinate at scale \<open>s\<close> is \<open>s\<close> times the coordinate at scale 1. Doubling the
  scale doubles every point, so the set of points the sampler can return at scale
  \<open>2 * s\<close> is the set at scale \<open>s\<close> scaled by 2, and its bounding box doubles.
\<close>

theorem randomInHeart_homogeneous:
  "vx (randomInHeart s dt dz dr) = s * vx (randomInHeart 1 dt dz dr)
   \<and> vy (randomInHeart s dt dz dr) = s * vy (randomInHeart 1 dt dz dr)
   \<and> vz (randomInHeart s dt dz dr) = s * vz (randomInHeart 1 dt dz dr)
   \<and> randomInHeart (2 * s) dt dz dr = multiplyScalar (randomInHeart s dt dz dr) 2
   \<and> heart_support (2 * s) = (\<lambda>p. multiplyScalar p 2) ` heart_support s"
proof -
  have d: "randomInHeart (2 * s) a b c = multiplyScalar (randomInHeart s a b c) 2" for a b c
    by (simp add: randomInHeart_def multiplyScalar_def Vector3_new_def Let_def)
  have "heart_support (2 * s) = (\<lambda>p. multiplyScalar p 2) ` heart_support s"
    unfolding heart_support_def by (auto simp add: d image_iff) 
  then show ?thesis
    using d by (simp add: randomInHeart_def multiplyScalar_def Vector3_new_def Let_def)
qed

subsection \<open>Losing the hand\<close>

lemma lerp3_to_origin: "lerp3 p (Vector3_new 0 0 0) 0.1 = multiplyScalar p 0.9"
  by (simp add: lerp3_def Vector3_new_def multiplyScalar_def algebra_simps)

lemma move_and_tilt_position:
  "g_position (move_and_tilt gs hand g) =
     lerp3 (g_position g) (if gs = FORMED \<or> gs = ROTATING then Vector3_new 0 0 0 else hand) 0.1"
  by (simp add: move_and_tilt_def Let_def)

lemma drift_funpow:
  "g_position ((move_and_tilt gs (Vector3_new 0 0 0) ^^ n) g) = multiplyScalar (g_position g) (0.9 ^ n)"
proof (induction n)
  case 0
  show ?case by (simp add: multiplyScalar_def)
next
  case (Suc n)
  show ?case
    by (simp add: move_and_tilt_position Suc lerp3_to_origin)
       (simp add: multiplyScalar_def)
qed

text \<open>
  C10. A detection cycle that finds no hand (the landmarks of the result are missing or
  an empty list) sets the gesture to DISPERSED and calls the hand-move handler with
  (0.5, 0.5). The handler maps \<open>(x, y)\<close> to the anchor
  \<open>((0.5 - x) * 50, (0.5 - y) * 30, 0)\<close>, so the anchor becomes the origin, and the
  group, whose position moves a tenth of the way to the anchor each frame, is at
  \<open>0.9 ^ n\<close> times its position after \<open>n\<close> frames: it drifts to the centre.
\<close>

theorem no_hand_resets_anchor:
  assumes "refs" and "0 < videoWidth" and "0 < videoHeight"
    and "landmarks = None \<or> landmarks = Some []"
  shows "predictWebcam refs videoWidth videoHeight landmarks s
           = Inr (handleHandMove 0.5 0.5 (handleGestureChange DISPERSED s))
       \<and> handPos (handleHandMove x y s) = Vector3_new ((0.5 - x) * 50) ((0.5 - y) * 30) 0
       \<and> handPos (handleHandMove 0.5 0.5 (handleGestureChange DISPERSED s)) = Vector3_new 0 0 0
       \<and> gestureState (handleHandMove 0.5 0.5 (handleGestureChange DISPERSED s)) = DISPERSED
       \<and> g_position ((move_and_tilt DISPERSED (Vector3_new 0 0 0) ^^ n) g)
           = multiplyScalar (g_position g) (0.9 ^ n)"
proof -
  have "predictWebcam refs videoWidth videoHeight landmarks s
           = Inr (handleHandMove 0.5 0.5 (handleGestureChange DISPERSED s))"
    using assms by (auto simp add: predictWebcam_def)
  then show ?thesis
    by (simp add: drift_funpow)
       (simp add: handleHandMove_def handleGestureChange_def Let_def algebra_simps)
qed

theorem no_hand_resets_anchor_witness:
  "predictWebcam True 640 480 None
      \<lparr>gestureState = FORMED, debugText = ''FIST: Form Heart'', handPos = Vector3_new 10 (-6) 0\<rparr>
     = Inr \<lparr>gestureState = DISPERSED, debugText = ''OPEN: Disperse Stars'', handPos = Vector3_new 0 0 0\<rparr>
   \<and> g_position ((move_and_tilt DISPERSED (Vector3_new 0 0 0) ^^ 2)
        \<lparr>g_position = Vector3_new 10 (-6) 0, g_rotation = \<lparr>ex = 0, ey = 0, ez = 0\<rparr>\<rparr>)
     = Vector3_new 8.1 (-4.86) 0"
  using no_hand_resets_anchor [of True 640 480 None
      "\<lparr>gestureState = FORMED, debugText = ''FIST: Form Heart'', handPos = Vector3_new 10 (-6) 0\<rparr>"
      0 0 2 "\<lparr>g_position = Vector3_new 10 (-6) 0, g_rotation = \<lparr>ex = 0, ey = 0, ez = 0\<rparr>\<rparr>"]
  by (simp add: handleHandMove_def handleGestureChange_def Let_def multiplyScalar_def Vector3_new_def power2_eq_square)

subsection \<open>Group placement and parallax tilt\<close>

text \<open>
  C6. In a frame, the outer group of the gallery (when mounted) and the group of the
  particles (when group and mesh are mounted; the callback returns at once otherwise)
  move their position by the factor 0.1 towards the origin exactly when the gesture is
  FORMED or ROTATING and towards the hand anchor in every other state; their rotations
  about x and y move by the factor 0.05 towards \<open>- anchor.y * 0.05\<close> and
  \<open>anchor.x * 0.05\<close> in every state.
\<close>

theorem group_placement_and_tilt:
  assumes "outerGroupRef refs = Some g"
    and "meshRef P = Some mesh" and "groupRef P = Some pg"
  shows "(\<exists>g'. outerGroupRef (gallery_useFrame gs hand delta time refs) = Some g'
            \<and> g_position g' = lerp3 (g_position g)
                 (if gs = FORMED \<or> gs = ROTATING then Vector3_new 0 0 0 else hand) 0.1
            \<and> ex (g_rotation g') = lerp (ex (g_rotation g)) (- vy hand * 0.05) 0.05
            \<and> ey (g_rotation g') = lerp (ey (g_rotation g)) (vx hand * 0.05) 0.05)
       \<and> (\<exists>pg'. groupRef (fst (particles_useFrame gs hand delta time P bufs)) = Some pg'
            \<and> g_position pg' = lerp3 (g_position pg)
                 (if gs = FORMED \<or> gs = ROTATING then Vector3_new 0 0 0 else hand) 0.1
            \<and> ex (g_rotation pg') = lerp (ex (g_rotation pg)) (- vy hand * 0.05) 0.05
            \<and> ey (g_rotation pg') = lerp (ey (g_rotation pg)) (vx hand * 0.05) 0.05)"
  using assms
  by (simp add: gallery_useFrame_def particles_useFrame_def move_and_tilt_def Let_def)

theorem group_placement_and_tilt_witness:
  "(\<exists>g'. outerGroupRef (gallery_useFrame DISPERSED (Vector3_new 10 (-6) 0) 0 0
            \<lparr>outerGroupRef = Some \<lparr>g_position = Vector3_new 0 0 0, g_rotation = \<lparr>ex = 0, ey = 0, ez = 0\<rparr>\<rparr>,
             innerGroupRef = None\<rparr>) = Some g'
       \<and> g_position g' = Vector3_new 1 (- 0.6) 0
       \<and> ex (g_rotation g') = 0.015 \<and> ey (g_rotation g') = 0.025)
   \<and> (\<exists>pg'. groupRef (fst (particles_useFrame DISPERSED (Vector3_new 10 (-6) 0) 0 0
            \<lparr>meshRef = Some \<lparr>pm_rotation_y = 0, pm_opacity = 1, pm_instances = []\<rparr>,
             groupRef = Some \<lparr>g_position = Vector3_new 10 10 0, g_rotation = \<lparr>ex = 0, ey = 0, ez = 0\<rparr>\<rparr>,
             heartPositions = 0, dispersedPositions = 1, currentPositions = 2, randomPhases = []\<rparr>
            (\<lambda>a. []))) = Some pg'
       \<and> g_position pg' = Vector3_new 10 8.4 0
       \<and> ex (g_rotation pg') = 0.015 \<and> ey (g_rotation pg') = 0.025)"
  using group_placement_and_tilt [where
      refs = "\<lparr>outerGroupRef = Some \<lparr>g_position = Vector3_new 0 0 0, g_rotation = \<lparr>ex = 0, ey = 0, ez = 0\<rparr>\<rparr>,
        innerGroupRef = None\<rparr>"
      and g = "\<lparr>g_position = Vector3_new 0 0 0, g_rotation = \<lparr>ex = 0, ey = 0, ez = 0\<rparr>\<rparr>"
      and P = "\<lparr>meshRef = Some \<lparr>pm_rotation_y = 0, pm_opacity = 1, pm_instances = []\<rparr>,
        groupRef = Some \<lparr>g_position = Vector3_new 10 10 0, g_rotation = \<lparr>ex = 0, ey = 0, ez = 0\<rparr>\<rparr>,
        heartPositions = 0, dispersedPositions = 1, currentPositions = 2, randomPhases = []\<rparr>"
      and mesh = "\<lparr>pm_rotation_y = 0, pm_opacity = 1, pm_instances = []\<rparr>"
      and pg = "\<lparr>g_position = Vector3_new 10 10 0, g_rotation = \<lparr>ex = 0, ey = 0, ez = 0\<rparr>\<rparr>"
      and gs = DISPERSED and hand = "Vector3_new 10 (-6) 0" and delta = 0 and time = 0
      and bufs = "\<lambda>a. []"]
  by (simp add: lerp3_def lerp_def Vector3_new_def)

subsection \<open>Focus selection\<close>

text \<open>The gallery has as many target pairs as images.\<close>

lemma make_positions_length: "length (fst (make_positions rnd k imgs h)) = length imgs"
  by (induction imgs arbitrary: k h) (simp_all add: Let_def)

lemma fold_select_first_min:
  fixes sc :: "nat \<Rightarrow> real"
  defines "stp \<equiv> (\<lambda>idx acc. if (case snd acc of None \<Rightarrow> True | Some m \<Rightarrow> sc idx < m)
                             then (idx, Some (sc idx)) else acc)"
  assumes "0 < n"
  shows "snd (fold stp [0..<n] (0, None)) = Some (sc (fst (fold stp [0..<n] (0, None))))
       \<and> fst (fold stp [0..<n] (0, None)) < n
       \<and> (\<forall>j<n. sc (fst (fold stp [0..<n] (0, None))) \<le> sc j)
       \<and> (\<forall>j<fst (fold stp [0..<n] (0, None)). sc (fst (fold stp [0..<n] (0, None))) < sc j)"
  using assms(2)
proof (induction n)
  case 0
  then show ?case by simp
next
  case (Suc n)
  show ?case
  proof (cases "n = 0")
    case True
    then show ?thesis by (simp add: stp_def)
  next
    case False
    then have pos: "0 < n" by simp
    let ?acc = "fold stp [0..<n] (0, None)"
    have ih: "snd ?acc = Some (sc (fst ?acc))" "fst ?acc < n"
      "\<forall>j<n. sc (fst ?acc) \<le> sc j" "\<forall>j<fst ?acc. sc (fst ?acc) < sc j"
      using Suc.IH [OF pos] by blast+
    have step: "fold stp [0..<Suc n] (0, None) = stp n ?acc" by simp
    show ?thesis
    proof (cases "sc n < sc (fst ?acc)")
      case True
      then have r: "stp n ?acc = (n, Some (sc n))" using ih(1) by (simp add: stp_def)
      have a: "\<forall>j<Suc n. sc n \<le> sc j"
      proof (intro allI impI)
        fix j assume "j < Suc n"
        then consider "j < n" | "j = n" by linarith
        then show "sc n \<le> sc j"
        proof cases
          case 1
          then have "sc (fst ?acc) \<le> sc j" using ih(3) by blast
          with True show ?thesis by linarith
        next
          case 2
          then show ?thesis by simp
        qed
      qed
      have b: "\<forall>j<n. sc n < sc j"
      proof (intro allI impI)
        fix j assume "j < n"
        then have "sc (fst ?acc) \<le> sc j" using ih(3) by blast
        with True show "sc n < sc j" by linarith
      qed
      show ?thesis unfolding step r using a b by simp
    next
      case False
      then have r: "stp n ?acc = ?acc" using ih(1) by (simp add: stp_def)
      have a: "\<forall>j<Suc n. sc (fst ?acc) \<le> sc j"
      proof (intro allI impI)
        fix j assume "j < Suc n"
        then consider "j < n" | "j = n" by linarith
        then show "sc (fst ?acc) \<le> sc j"
        proof cases
          case 1
          then show ?thesis using ih(3) by blast
        next
          case 2
          then show ?thesis using False by simp
        qed
      qed
      show ?thesis unfolding step r using a ih by simp
    qed
  qed
qed

lemma select_step_eq:
  "select_step h M vc src =
     (\<lambda>idx acc. if (case snd acc of None \<Rightarrow> True | Some m \<Rightarrow> photo_score h M vc src idx < m)
                 then (idx, Some (photo_score h M vc src idx)) else acc)"
  by (intro ext) (simp add: select_step_def Let_def)

lemma best_index_argmin:
  assumes "0 < length src"
    and "b = fst (fold (select_step h M vc src) [0..<length src] (0, None))"
  shows "b < length src
       \<and> (\<forall>j<length src. photo_score h M vc src b \<le> photo_score h M vc src j)
       \<and> (\<forall>j<b. photo_score h M vc src b < photo_score h M vc src j)"
  unfolding assms(2) select_step_eq
  using fold_select_first_min [OF assms(1), of "photo_score h M vc src"] by blast

lemma photo_score_formula:
  "photo_score h M vc src idx =
     distanceTo (applyMatrix4 (vecs h (src ! idx)) M) (Vector3_new 0 0 30) + 500 * real (view_count vc idx)"
  by (simp add: photo_score_def cameraPos_def Let_def)

lemma focus_effect_rising:
  assumes "previousState F \<noteq> FOCUSED" and "0 < n"
  shows "focus_effect FOCUSED n (Some M) h positions F =
     (let src = (if previousState F = FORMED \<or> previousState F = ROTATING
                 then map formed positions else map dispersed positions);
          b = fst (fold (select_step h M (viewCounts F) src) [0..<length src] (0, None))
      in F\<lparr>activeIndex := b,
            viewCounts := (viewCounts F)(b \<mapsto> view_count (viewCounts F) b + 1),
            previousState := FOCUSED\<rparr>)"
  using assms by (simp add: focus_effect_def Let_def)

text \<open>
  C3. On an entry into FOCUSED (the previous gesture is not FOCUSED) with \<open>n > 0\<close>
  photos and the inner group mounted, the selected index is below \<open>n\<close>, its score is
  minimal among all photos, and every lower index has a strictly larger score (the
  first index of minimal score). The score of a photo is the distance to (0,0,30) of its
  pre-focus target (the formed one after FORMED or ROTATING, else the dispersed one)
  under the inner group's world matrix, plus 500 times its view count. The view count of
  the selected index grows by one and no other entry changes.
\<close>

theorem focus_selects_argmin:
  assumes "previousState F \<noteq> FOCUSED" and "0 < n" and "length positions = n"
    and "src = (if previousState F = FORMED \<or> previousState F = ROTATING
                then map formed positions else map dispersed positions)"
    and "F' = focus_effect FOCUSED n (Some M) h positions F"
  shows "activeIndex F' < n
       \<and> (\<forall>j<n. photo_score h M (viewCounts F) src (activeIndex F')
                    \<le> photo_score h M (viewCounts F) src j)
       \<and> (\<forall>j<activeIndex F'. photo_score h M (viewCounts F) src (activeIndex F')
                    < photo_score h M (viewCounts F) src j)
       \<and> (\<forall>idx. photo_score h M (viewCounts F) src idx =
             distanceTo (applyMatrix4 (vecs h (src ! idx)) M) (Vector3_new 0 0 30)
               + 500 * real (view_count (viewCounts F) idx))
       \<and> view_count (viewCounts F') (activeIndex F') = view_count (viewCounts F) (activeIndex F') + 1
       \<and> (\<forall>j. j \<noteq> activeIndex F' \<longrightarrow> viewCounts F' j = viewCounts F j)"
proof -
  have len: "length src = n" using assms(3,4) by simp
  then have pos: "0 < length src" using assms(2) by simp
  define b where "b = fst (fold (select_step h M (viewCounts F) src) [0..<length src] (0, None))"
  have F': "F' = F\<lparr>activeIndex := b,
            viewCounts := (viewCounts F)(b \<mapsto> view_count (viewCounts F) b + 1),
            previousState := FOCUSED\<rparr>"
    unfolding assms(5) focus_effect_rising [OF assms(1,2)] b_def assms(4) by (simp add: Let_def)
  have ai: "activeIndex F' = b" using F' by simp
  have vc: "viewCounts F' = (viewCounts F)(b \<mapsto> view_count (viewCounts F) b + 1)" using F' by simp
  from best_index_argmin [OF pos b_def]
  have arg: "b < length src"
    "\<forall>j<length src. photo_score h M (viewCounts F) src b \<le> photo_score h M (viewCounts F) src j"
    "\<forall>j<b. photo_score h M (viewCounts F) src b < photo_score h M (viewCounts F) src j"
    by blast+
  show ?thesis
    unfolding ai vc using arg len by (simp add: photo_score_formula view_count_def)
qed

lemma applyMatrix4_identity: "applyMatrix4 v identity4 = v"
  by (simp add: applyMatrix4_def identity4_def Vector3_new_def Let_def)

lemma distanceTo_on_z:
  "distanceTo (Vector3_new 0 0 a) (Vector3_new 0 0 b) = \<bar>a - b\<bar>"
  by (simp add: distanceTo_def Vector3_new_def Let_def)

lemma sample_scores:
  "photo_score sample_heap identity4 (viewCounts sample_focus) (map dispersed sample_positions) 0 = 510"
  "photo_score sample_heap identity4 (viewCounts sample_focus) (map dispersed sample_positions) 1 = 505"
  "photo_score sample_heap identity4 (viewCounts sample_focus) (map dispersed sample_positions) 2 = 20"
  by (simp_all add: photo_score_def cameraPos_def applyMatrix4_identity Let_def sample_heap_def
        sample_positions_def sample_focus_def view_count_def distanceTo_on_z)

theorem focus_selects_argmin_witness:
  "activeIndex (focus_effect FOCUSED 3 (Some identity4) sample_heap sample_positions sample_focus) = 2
   \<and> view_count (viewCounts (focus_effect FOCUSED 3 (Some identity4) sample_heap sample_positions
        sample_focus)) 2 = 1"
proof -
  let ?F' = "focus_effect FOCUSED 3 (Some identity4) sample_heap sample_positions sample_focus"
  let ?sc = "photo_score sample_heap identity4 (viewCounts sample_focus) (map dispersed sample_positions)"
  have p: "previousState sample_focus \<noteq> FOCUSED" by (simp add: sample_focus_def)
  have l: "length sample_positions = 3" by (simp add: sample_positions_def)
  have s: "map dispersed sample_positions =
      (if previousState sample_focus = FORMED \<or> previousState sample_focus = ROTATING
       then map formed sample_positions else map dispersed sample_positions)"
    by (simp add: sample_focus_def)
  have pos: "0 < (3::nat)" by simp
  from focus_selects_argmin [OF p pos l s refl, of identity4 sample_heap]
  have b: "activeIndex ?F' < 3" and m: "\<forall>j<3. ?sc (activeIndex ?F') \<le> ?sc j"
    and v: "view_count (viewCounts ?F') (activeIndex ?F')
              = view_count (viewCounts sample_focus) (activeIndex ?F') + 1"
    by blast+
  have "(2::nat) < 3" by simp
  with m have "?sc (activeIndex ?F') \<le> ?sc 2" by blast
  then have le: "?sc (activeIndex ?F') \<le> 20" using sample_scores(3) by simp
  from b consider "activeIndex ?F' = 0" | "activeIndex ?F' = 1" | "activeIndex ?F' = 2"
    by linarith
  then have a: "activeIndex ?F' = 2"
  proof cases
    case 1
    with le sample_scores(1) show ?thesis by simp
  next
    case 2
    with le sample_scores(2) show ?thesis by simp
  next
    case 3
    then show ?thesis .
  qed
  with v show ?thesis by (simp add: sample_focus_def view_count_def)
qed

lemma total_views_Suc: "total_views f (Suc n) = total_views f n + view_count f n"
  by (simp add: total_views_def)

lemma total_views_outside:
  assumes "n \<le> b"
  shows "total_views (vc(b \<mapsto> c)) n = total_views vc n"
proof -
  have "map (view_count (vc(b \<mapsto> c))) [0..<n] = map (view_count vc) [0..<n]"
    using assms by (intro map_cong refl) (auto simp add: view_count_def)
  then show ?thesis by (simp only: total_views_def)
qed

lemma total_views_bump:
  assumes "b < n"
  shows "total_views (vc(b \<mapsto> Suc (view_count vc b))) n = Suc (total_views vc n)"
  using assms
proof (induction n)
  case 0
  then show ?case by simp
next
  case (Suc n)
  let ?vc = "vc(b \<mapsto> Suc (view_count vc b))"
  show ?case
  proof (cases "b = n")
    case True
    have a: "total_views ?vc n = total_views vc n"
      using True by (intro total_views_outside) simp
    have b: "view_count ?vc n = Suc (view_count vc n)"
      using True by (simp add: view_count_def)
    show ?thesis unfolding total_views_Suc a b by simp
  next
    case False
    then have "b < n" using Suc.prems by simp
    then have ih: "total_views ?vc n = Suc (total_views vc n)"
      by (rule Suc.IH)
    have b: "view_count ?vc n = view_count vc n"
      using False by (simp add: view_count_def)
    show ?thesis unfolding total_views_Suc ih b by simp
  qed
qed

lemma focus_effect_previous: "previousState (focus_effect gs n inner h ps F) = gs"
  by (simp add: focus_effect_def Let_def split: option.splits)

lemma focus_effect_no_edge:
  assumes "gs \<noteq> FOCUSED \<or> previousState F = FOCUSED \<or> n = 0 \<or> inner = None"
  shows "focus_effect gs n inner h ps F = F\<lparr>previousState := gs\<rparr>"
  using assms by (auto simp add: focus_effect_def Let_def split: option.splits)

lemma focus_effect_edge:
  assumes "previousState F \<noteq> FOCUSED" and "0 < n" and "length ps = n"
  shows "\<exists>b<n. focus_effect FOCUSED n (Some M) h ps F =
            F\<lparr>activeIndex := b, viewCounts := (viewCounts F)(b \<mapsto> view_count (viewCounts F) b + 1),
              previousState := FOCUSED\<rparr>"
proof -
  let ?src = "if previousState F = FORMED \<or> previousState F = ROTATING
                then map formed ps else map dispersed ps"
  let ?b = "fst (fold (select_step h M (viewCounts F) ?src) [0..<length ?src] (0, None))"
  have len: "length ?src = n" using assms(3) by simp
  then have "0 < length ?src" using assms(2) by simp
  from best_index_argmin [OF this refl, of h M "viewCounts F"] len have "?b < n" by simp
  then show ?thesis
    unfolding focus_effect_rising [OF assms(1,2)] by (auto simp add: Let_def)
qed

lemma focus_effect_total:
  assumes "0 < n" and "length ps = n"
  shows "total_views (viewCounts (focus_effect gs n (Some M) h ps F)) n =
           total_views (viewCounts F) n + (if gs = FOCUSED \<and> previousState F \<noteq> FOCUSED then 1 else 0)"
proof (cases "gs = FOCUSED \<and> previousState F \<noteq> FOCUSED")
  case True
  then have g: "gs = FOCUSED" and p: "previousState F \<noteq> FOCUSED" by simp_all
  from focus_effect_edge [OF p assms, of M h] obtain b where "b < n"
    and "focus_effect FOCUSED n (Some M) h ps F =
            F\<lparr>activeIndex := b, viewCounts := (viewCounts F)(b \<mapsto> view_count (viewCounts F) b + 1),
              previousState := FOCUSED\<rparr>" by blast
  then show ?thesis using True by (simp add: total_views_bump)
next
  case False
  then have "focus_effect gs n (Some M) h ps F = F\<lparr>previousState := gs\<rparr>"
    by (intro focus_effect_no_edge) auto
  then show ?thesis using False by simp
qed

lemma run_effects_total:
  assumes "0 < n" and "list_all (mounted_render n) rs"
  shows "total_views (viewCounts (run_effects rs F)) n =
           total_views (viewCounts F) n + entries_into_focus (previousState F) (map fst rs)"
  using assms(2)
proof (induction rs arbitrary: F)
  case Nil
  then show ?case by simp
next
  case (Cons r rs)
  obtain gs n' inner h ps where r: "r = (gs, n', inner, h, ps)" by (cases r) auto
  from Cons.prems have mr: "mounted_render n r" and rest: "list_all (mounted_render n) rs"
    by simp_all
  from mr r have "n' = n \<and> inner \<noteq> None \<and> length ps = n"
    by (simp add: mounted_render_def)
  then obtain M where m: "n' = n" "inner = Some M" "length ps = n"
    by (cases inner) auto
  have "total_views (viewCounts (run_effects rs (focus_effect gs n (Some M) h ps F))) n =
          total_views (viewCounts (focus_effect gs n (Some M) h ps F)) n
            + entries_into_focus gs (map fst rs)"
    using Cons.IH [OF rest] by (simp add: focus_effect_previous)
  then show ?case
    using r m focus_effect_total [OF assms(1) m(3), of gs M h F] by simp
qed

text \<open>
  C4. Selection is edge-triggered. On an entry into FOCUSED with \<open>n > 0\<close> photos the
  effect selects one index \<open>b < n\<close> and adds one to its view count; run again while the
  gesture stays FOCUSED (whatever the other inputs) it changes nothing; with zero
  photos an entry into FOCUSED selects nothing and leaves the view counts as they are.
  Over any run of renders of a mounted gallery of \<open>n\<close> photos the view counts grow,
  in total, by the number of entries into FOCUSED.
\<close>

theorem focus_edge_triggered:
  assumes "0 < n" and "list_all (mounted_render n) rs"
    and "previousState F \<noteq> FOCUSED" and "length ps = n"
  shows "(\<exists>b<n. focus_effect FOCUSED n (Some M) h ps F =
            F\<lparr>activeIndex := b, viewCounts := (viewCounts F)(b \<mapsto> view_count (viewCounts F) b + 1),
              previousState := FOCUSED\<rparr>)
       \<and> focus_effect FOCUSED n2 inner2 h2 ps2 (focus_effect FOCUSED n (Some M) h ps F)
           = focus_effect FOCUSED n (Some M) h ps F
       \<and> focus_effect FOCUSED 0 inner2 h2 ps2 F = F\<lparr>previousState := FOCUSED\<rparr>
       \<and> total_views (viewCounts (run_effects rs F)) n =
           total_views (viewCounts F) n + entries_into_focus (previousState F) (map fst rs)"
proof -
  have "previousState (focus_effect FOCUSED n (Some M) h ps F) = FOCUSED"
    by (rule focus_effect_previous)
  then have "focus_effect FOCUSED n2 inner2 h2 ps2 (focus_effect FOCUSED n (Some M) h ps F)
           = (focus_effect FOCUSED n (Some M) h ps F)\<lparr>previousState := FOCUSED\<rparr>"
    by (intro focus_effect_no_edge) simp
  then have again: "focus_effect FOCUSED n2 inner2 h2 ps2 (focus_effect FOCUSED n (Some M) h ps F)
           = focus_effect FOCUSED n (Some M) h ps F"
    using focus_effect_previous [of FOCUSED n "Some M" h ps F] by (metis focus_state.surjective focus_state.update_convs(3) ) 
  have zero: "focus_effect FOCUSED 0 inner2 h2 ps2 F = F\<lparr>previousState := FOCUSED\<rparr>"
    by (intro focus_effect_no_edge) simp
  show ?thesis
    using focus_effect_edge [OF assms(3,1,4), of M h] again zero run_effects_total [OF assms(1,2), of F]
    by blast
qed

theorem focus_edge_triggered_witness:
  "total_views (viewCounts (run_effects sample_run sample_focus)) 3 = 4
   \<and> focus_effect FOCUSED 3 (Some identity4) sample_heap sample_positions
         (focus_effect FOCUSED 3 (Some identity4) sample_heap sample_positions sample_focus)
       = focus_effect FOCUSED 3 (Some identity4) sample_heap sample_positions sample_focus
   \<and> focus_effect FOCUSED 0 (Some identity4) sample_heap sample_positions sample_focus
       = sample_focus\<lparr>previousState := FOCUSED\<rparr>"
proof -
  have pos: "0 < (3::nat)" by simp
  have run: "list_all (mounted_render 3) sample_run"
    by (simp add: sample_run_def mounted_render_def sample_positions_def)
  have p: "previousState sample_focus \<noteq> FOCUSED" by (simp add: sample_focus_def)
  have l: "length sample_positions = 3" by (simp add: sample_positions_def)
  have t: "total_views (viewCounts sample_focus) 3 = 2"
    by (simp add: total_views_def sample_focus_def view_count_def upt_rec)
  have e: "entries_into_focus (previousState sample_focus) (map fst sample_run) = 2"
    by (simp add: sample_focus_def sample_run_def)
  note inst = focus_edge_triggered [OF pos run p l, of identity4 sample_heap 3 "Some identity4"
      sample_heap sample_positions]
  from inst have a: "total_views (viewCounts (run_effects sample_run sample_focus)) 3 = 2 + 2"
    unfolding t e by blast
  from inst have b: "focus_effect FOCUSED 3 (Some identity4) sample_heap sample_positions
         (focus_effect FOCUSED 3 (Some identity4) sample_heap sample_positions sample_focus)
       = focus_effect FOCUSED 3 (Some identity4) sample_heap sample_positions sample_focus"
    by blast
  from inst have c: "focus_effect FOCUSED 0 (Some identity4) sample_heap sample_positions sample_focus
       = sample_focus\<lparr>previousState := FOCUSED\<rparr>"
    by blast
  from a have a': "total_views (viewCounts (run_effects sample_run sample_focus)) 3 = 4"
    by simp
  from a' b c show ?thesis by (intro conjI)
qed

subsection \<open>The scale guard of a photo\<close>



lemma useFrame_mesh:
  assumes "p_meshRef F = Some mesh"
  shows "p_meshRef (fst (photoFrame_useFrame three time camera props F h)) =
     Some (let damping = 0.08;
               target = photo_destination props time (vecs h (targetPos props)) (vecs h (p_position F));
               pos = lerp3 (vecs h (p_position F)) (fst target) damping
           in apply_opacity props damping
                (apply_rotation three props (snd (snd target)) damping camera
                   (apply_scale (fst (snd target)) damping (p_aspect F) (mesh\<lparr>m_position := pos\<rparr>))))"
  using assms by (simp add: photoFrame_useFrame_def Let_def)







lemma apply_scale_passes_infinity:
  assumes "sy (m_scale mesh) = PInf" and "0 < d" and "d < 1"
  shows "sy (m_scale (apply_scale t d a mesh)) = PInf"
  using assms by (simp add: apply_scale_def Let_def js_lerp_def js_sub_def)






subsection \<open>Placing the focused photo\<close>

lemma euler_norm:
  fixes a1 b1 a2 b2 a3 b3 :: real
  assumes "a1 * a1 + b1 * b1 = 1" and "a2 * a2 + b2 * b2 = 1" and "a3 * a3 + b3 * b3 = 1"
  shows "(b1 * a2 * a3 + a1 * b2 * b3) * (b1 * a2 * a3 + a1 * b2 * b3)
       + (a1 * b2 * a3 - b1 * a2 * b3) * (a1 * b2 * a3 - b1 * a2 * b3)
       + (a1 * a2 * b3 + b1 * b2 * a3) * (a1 * a2 * b3 + b1 * b2 * a3)
       + (a1 * a2 * a3 - b1 * b2 * b3) * (a1 * a2 * a3 - b1 * b2 * b3) = 1"
proof -
  have "(b1 * a2 * a3 + a1 * b2 * b3) * (b1 * a2 * a3 + a1 * b2 * b3)
       + (a1 * b2 * a3 - b1 * a2 * b3) * (a1 * b2 * a3 - b1 * a2 * b3)
       + (a1 * a2 * b3 + b1 * b2 * a3) * (a1 * a2 * b3 + b1 * b2 * a3)
       + (a1 * a2 * a3 - b1 * b2 * b3) * (a1 * a2 * a3 - b1 * b2 * b3)
      = (a1 * a1 + b1 * b1) * ((a2 * a2 + b2 * b2) * (a3 * a3 + b3 * b3))"
    by (simp add: algebra_simps)
  then show ?thesis using assms by simp
qed

lemma cos_sin_half: "cos (a / 2 :: real) * cos (a / 2) + sin (a / 2) * sin (a / 2) = 1"
  using sin_cos_squared_add [of "a / 2"] by (simp add: power2_eq_square)

lemma lengthSq_setFromEuler: "lengthSq (setFromEuler e) = 1"
  unfolding lengthSq_def setFromEuler_def Let_def
  using euler_norm [OF cos_sin_half [of "ex e"] cos_sin_half [of "ey e"] cos_sin_half [of "ez e"]]
  by simp

lemma lengthSq_invertQ: "lengthSq (invertQ q) = lengthSq q"
  by (simp add: lengthSq_def invertQ_def)

lemma lengthSq_multiply: "lengthSq (multiplyQuaternions a b) = lengthSq a * lengthSq b"
  by (simp add: lengthSq_def multiplyQuaternions_def algebra_simps)

lemma multiply_invert:
  "multiplyQuaternions q (invertQ q) = \<lparr>qx = 0, qy = 0, qz = 0, qw = lengthSq q\<rparr>"
  by (simp add: lengthSq_def multiplyQuaternions_def invertQ_def algebra_simps)

lemma applyRotation_unit:
  assumes "lengthSq q = 1"
  shows "applyRotation q v = rotateH q v"
proof -
  have n: "qx q * qx q + qy q * qy q + qz q * qz q + qw q * qw q = 1"
    using assms by (simp add: lengthSq_def)
  have d1: "1 - (qy q * (qy q + qy q) + qz q * (qz q + qz q))
              = qw q * qw q + qx q * qx q - qy q * qy q - qz q * qz q"
    using n by (simp add: algebra_simps)
  have d2: "1 - (qx q * (qx q + qx q) + qz q * (qz q + qz q))
              = qw q * qw q - qx q * qx q + qy q * qy q - qz q * qz q"
    using n by (simp add: algebra_simps)
  have d3: "1 - (qx q * (qx q + qx q) + qy q * (qy q + qy q))
              = qw q * qw q - qx q * qx q - qy q * qy q + qz q * qz q"
    using n by (simp add: algebra_simps)
  show ?thesis
    unfolding applyRotation_def rotateH_def Let_def d1 d2 d3
    by (simp add: algebra_simps)
qed

lemma rotateH_round_trip:
  "rotateH q (rotateH (invertQ q) v) = multiplyScalar v (lengthSq q * lengthSq q)"
  unfolding rotateH_def invertQ_def lengthSq_def Let_def multiplyScalar_def Vector3_new_def
  by (simp add: algebra_simps)

lemma rotateH_round_trip': 
  "rotateH (invertQ q) (rotateH q v) = multiplyScalar v (lengthSq q * lengthSq q)"
  unfolding rotateH_def invertQ_def lengthSq_def Let_def multiplyScalar_def Vector3_new_def
  by (simp add: algebra_simps)

lemma multiplyScalar_one: "multiplyScalar v 1 = v"
  by (simp add: multiplyScalar_def)

lemma rotation_round_trip:
  assumes "lengthSq q = 1"
  shows "applyRotation q (applyRotation (invertQ q) v) = v"
    and "applyRotation (invertQ q) (applyRotation q v) = v"
proof -
  have i: "lengthSq (invertQ q) = 1" using assms by (simp add: lengthSq_invertQ)
  show "applyRotation q (applyRotation (invertQ q) v) = v"
    unfolding applyRotation_unit [OF assms] applyRotation_unit [OF i] rotateH_round_trip assms
    by (simp add: multiplyScalar_one)
  show "applyRotation (invertQ q) (applyRotation q v) = v"
    unfolding applyRotation_unit [OF assms] applyRotation_unit [OF i] rotateH_round_trip' assms
    by (simp add: multiplyScalar_one)
qed

lemma add3_sub3: "add3 p (sub3 v p) = v" "sub3 (add3 p v) p = v"
  by (simp_all add: add3_def sub3_def Vector3_new_def)

lemma world_local_round_trip:
  "localToWorld parent (worldToLocal parent v) = v"
  "worldToLocal parent (localToWorld parent v) = v"
  unfolding localToWorld_def worldToLocal_def Let_def
  by (simp_all add: rotation_round_trip lengthSq_setFromEuler add3_sub3)

lemma photo_destination_focused:
  assumes "isFocused props" and "parentGroupRef props = Some parent"
  shows "photo_destination props time target pos =
           (worldToLocal parent targetWorldPos, 8, \<lparr>ex = 0, ey = 0, ez = 0\<rparr>)"
  using assms by (simp add: photo_destination_def focused_parent_def Let_def)

lemma apply_rotation_focused:
  assumes "isFocused props" and "parentGroupRef props = Some parent"
  shows "m_quaternion (apply_rotation three props targetRot damping camera mesh)
           = invertQ (getWorldQuaternion parent)"
    and "m_position (apply_rotation three props targetRot damping camera mesh) = m_position mesh"
  using assms by (simp_all add: apply_rotation_def focused_parent_def set_quaternion_def Let_def)

lemma apply_scale_other:
  "m_position (apply_scale t d a mesh) = m_position mesh"
  by (simp add: apply_scale_def Let_def)

lemma apply_opacity_other:
  "m_position (apply_opacity props d mesh) = m_position mesh"
  "m_quaternion (apply_opacity props d mesh) = m_quaternion mesh"
  by (simp_all add: apply_opacity_def Let_def)

lemma lengthSq_world: "lengthSq (getWorldQuaternion parent) = 1"
  by (simp add: getWorldQuaternion_def lengthSq_multiply lengthSq_setFromEuler)

lemma useFrame_heap:
  assumes "p_meshRef F = Some mesh"
  shows "snd (photoFrame_useFrame three time camera props F h) =
     h\<lparr>vecs := (vecs h)(p_position F :=
          lerp3 (vecs h (p_position F))
            (fst (photo_destination props time (vecs h (targetPos props)) (vecs h (p_position F)))) 0.08)\<rparr>"
  using assms by (simp add: photoFrame_useFrame_def Let_def)

text \<open>
  C2. In a frame of a mounted photo that is the focused one, with its parent group
  there, the destination of the position is \<open>worldToLocal\<close> of the parent applied to
  the world point (0,0,20): the one local point that the parent's current world
  transform carries to (0,0,20), whatever the position and rotation of the groups in
  that frame. The position ref and the mesh move the fraction 0.08 towards it. The
  quaternion of the mesh is set to the inverse of the parent's world quaternion, so the
  world orientation of the photo (parent's world quaternion times its own) is the
  identity. The placement point (0,0,20) differs from the anchor (0,0,30) of the focus
  scoring.
\<close>

theorem focused_photo_placement:
  assumes "p_meshRef F = Some mesh" and "isFocused props" and "parentGroupRef props = Some parent"
    and "dest = worldToLocal parent targetWorldPos"
  shows "fst (photo_destination props time (vecs h (targetPos props)) (vecs h (p_position F))) = dest
     \<and> vecs (snd (photoFrame_useFrame three time camera props F h)) (p_position F)
         = lerp3 (vecs h (p_position F)) dest 0.08
     \<and> localToWorld parent dest = Vector3_new 0 0 20
     \<and> (\<forall>p. localToWorld parent p = Vector3_new 0 0 20 \<longrightarrow> p = dest)
     \<and> (\<exists>mesh'. p_meshRef (fst (photoFrame_useFrame three time camera props F h)) = Some mesh'
           \<and> m_position mesh' = lerp3 (vecs h (p_position F)) dest 0.08
           \<and> m_quaternion mesh' = invertQ (getWorldQuaternion parent)
           \<and> multiplyQuaternions (getWorldQuaternion parent) (m_quaternion mesh')
               = \<lparr>qx = 0, qy = 0, qz = 0, qw = 1\<rparr>)
     \<and> targetWorldPos \<noteq> cameraPos"
proof -
  have d: "photo_destination props time (vecs h (targetPos props)) (vecs h (p_position F))
             = (dest, 8, \<lparr>ex = 0, ey = 0, ez = 0\<rparr>)"
    unfolding assms(4) by (rule photo_destination_focused [OF assms(2,3)])
  have 1: "fst (photo_destination props time (vecs h (targetPos props)) (vecs h (p_position F))) = dest"
    using d by simp
  have 2: "vecs (snd (photoFrame_useFrame three time camera props F h)) (p_position F)
         = lerp3 (vecs h (p_position F)) dest 0.08"
    unfolding useFrame_heap [OF assms(1)] 1 by simp
  have 3: "localToWorld parent dest = Vector3_new 0 0 20"
    unfolding assms(4) world_local_round_trip by (simp add: targetWorldPos_def)
  have 4: "\<forall>p. localToWorld parent p = Vector3_new 0 0 20 \<longrightarrow> p = dest"
  proof (intro allI impI)
    fix p assume "localToWorld parent p = Vector3_new 0 0 20"
    then have "worldToLocal parent (localToWorld parent p) = worldToLocal parent (Vector3_new 0 0 20)"
      by simp
    then show "p = dest"
      unfolding world_local_round_trip assms(4) by (simp add: targetWorldPos_def)
  qed
  have 5: "\<exists>mesh'. p_meshRef (fst (photoFrame_useFrame three time camera props F h)) = Some mesh'
           \<and> m_position mesh' = lerp3 (vecs h (p_position F)) dest 0.08
           \<and> m_quaternion mesh' = invertQ (getWorldQuaternion parent)
           \<and> multiplyQuaternions (getWorldQuaternion parent) (m_quaternion mesh')
               = \<lparr>qx = 0, qy = 0, qz = 0, qw = 1\<rparr>"
    unfolding useFrame_mesh [OF assms(1)] d
    by (simp add: Let_def apply_opacity_other apply_rotation_focused [OF assms(2,3)]
          apply_scale_other multiply_invert lengthSq_world)
  have 6: "targetWorldPos \<noteq> cameraPos"
    by (simp add: targetWorldPos_def cameraPos_def Vector3_new_def)
  from 1 2 3 4 5 6 show ?thesis by (intro conjI)
qed

lemma sample_quaternions:
  "setFromEuler \<lparr>ex = 0, ey = 0, ez = 0\<rparr> = \<lparr>qx = 0, qy = 0, qz = 0, qw = 1\<rparr>"
  "setFromEuler \<lparr>ex = 0, ey = pi, ez = 0\<rparr> = \<lparr>qx = 0, qy = 1, qz = 0, qw = 0\<rparr>"
  by (simp_all add: setFromEuler_def Let_def)

lemma sample_dest: "worldToLocal sample_parent targetWorldPos = Vector3_new 1 (- 2) (- 17)"
  by (simp add: worldToLocal_def sample_parent_def sample_quaternions targetWorldPos_def Let_def
        invertQ_def applyRotation_def sub3_def Vector3_new_def)

theorem focused_photo_placement_witness:
  "vecs (snd (photoFrame_useFrame sample_three 0 cameraPos sample_focused_props sample_frame sample_heap))
      (p_position sample_frame) = Vector3_new 0.08 (- 0.16) (- 1.36)
   \<and> localToWorld sample_parent (Vector3_new 1 (- 2) (- 17)) = Vector3_new 0 0 20
   \<and> (\<exists>mesh'. p_meshRef (fst (photoFrame_useFrame sample_three 0 cameraPos sample_focused_props
                  sample_frame sample_heap)) = Some mesh'
         \<and> m_quaternion mesh' = \<lparr>qx = 0, qy = - 1, qz = 0, qw = 0\<rparr>)"
proof -
  have m: "p_meshRef sample_frame = Some (mounted_mesh (Vector3_new 0 0 0))"
    by (simp add: sample_frame_def)
  have f: "isFocused sample_focused_props" by (simp add: sample_focused_props_def)
  have p: "parentGroupRef sample_focused_props = Some sample_parent"
    by (simp add: sample_focused_props_def)
  have w: "getWorldQuaternion sample_parent = \<lparr>qx = 0, qy = 1, qz = 0, qw = 0\<rparr>"
    by (simp add: getWorldQuaternion_def sample_parent_def sample_quaternions multiplyQuaternions_def)
  have pos: "vecs sample_heap (p_position sample_frame) = Vector3_new 0 0 0"
    by (simp add: sample_heap_def sample_frame_def)
  note inst = focused_photo_placement [OF m f p sample_dest [symmetric],
      of 0 sample_heap sample_three cameraPos]
  from inst have a: "vecs (snd (photoFrame_useFrame sample_three 0 cameraPos sample_focused_props
      sample_frame sample_heap)) (p_position sample_frame) = Vector3_new 0.08 (- 0.16) (- 1.36)"
    unfolding pos by (simp add: lerp3_def Vector3_new_def)
  from inst have b: "localToWorld sample_parent (Vector3_new 1 (- 2) (- 17)) = Vector3_new 0 0 20"
    by blast
  from inst have c: "\<exists>mesh'. p_meshRef (fst (photoFrame_useFrame sample_three 0 cameraPos sample_focused_props
                  sample_frame sample_heap)) = Some mesh'
         \<and> m_quaternion mesh' = \<lparr>qx = 0, qy = - 1, qz = 0, qw = 0\<rparr>"
    unfolding w by (auto simp add: invertQ_def)
  from a b c show ?thesis by (intro conjI)
qed

subsection \<open>The targets over time\<close>

lemma useFrame_frame:
  assumes "a \<noteq> p_position F"
  shows "vecs (snd (photoFrame_useFrame three time camera props F h)) a = vecs h a"
    and "fresh (snd (photoFrame_useFrame three time camera props F h)) = fresh h"
    and "p_position (fst (photoFrame_useFrame three time camera props F h)) = p_position F"
  using assms by (simp_all add: photoFrame_useFrame_def Let_def split: option.splits)

lemma frames_frame:
  assumes "a \<noteq> p_position F"
  shows "vecs (snd (photoFrame_frames three fs F h)) a = vecs h a"
  using assms
proof (induction fs arbitrary: F h)
  case Nil
  then show ?case by simp
next
  case (Cons f fs)
  obtain time camera props where f: "f = (time, camera, props)" by (cases f) auto
  let ?r = "photoFrame_useFrame three time camera props F h"
  have "a \<noteq> p_position (fst ?r)" using Cons.prems by (simp add: useFrame_frame)
  then have "vecs (snd (photoFrame_frames three fs (fst ?r) (snd ?r))) a = vecs (snd ?r) a"
    by (rule Cons.IH)
  then show ?case using f Cons.prems by (simp add: Let_def useFrame_frame)
qed

lemma particle_step_frame:
  assumes "b \<noteq> cur"
  shows "fst (particle_step time tb cur phases i st) b = fst st b"
  using assms by (simp add: particle_step_def Let_def)

lemma particle_loop_frame:
  assumes "b \<noteq> cur"
  shows "fst (fold (particle_step time tb cur phases) is st) b = fst st b"
  using assms by (induction "is" arbitrary: st) (simp_all add: particle_step_frame)

lemma particles_useFrame_frame:
  assumes "b \<noteq> currentPositions P"
  shows "snd (particles_useFrame gs hand delta time P bufs) b = bufs b"
    and "heartPositions (fst (particles_useFrame gs hand delta time P bufs)) = heartPositions P"
    and "dispersedPositions (fst (particles_useFrame gs hand delta time P bufs)) = dispersedPositions P"
    and "currentPositions (fst (particles_useFrame gs hand delta time P bufs)) = currentPositions P"
  using assms
  by (simp_all add: particles_useFrame_def Let_def particle_loop_frame split: option.splits)

lemma useMemo_same: "useMemo factory d (Some (d, v)) h = ((d, v), h)"
  by (simp add: useMemo_def)

lemma useMemo_changed:
  assumes "d' \<noteq> d"
  shows "useMemo factory d' (Some (d, v)) h = ((d', fst (factory h)), snd (factory h))"
  using assms by (simp add: useMemo_def Let_def)

lemma make_positions_old:
  assumes "a < fresh h"
  shows "vecs (snd (make_positions rnd k imgs h)) a = vecs h a"
  using assms
proof (induction imgs arbitrary: k h)
  case Nil
  show ?case by simp
next
  case (Cons img imgs)
  let ?h2 = "snd (alloc (randomInHeart 0.6 (rnd (k + 3)) (rnd (k + 4)) (rnd (k + 5)))
                (snd (alloc (randomInSphere 30 (rnd k) (rnd (k + 1)) (rnd (k + 2))) h)))"
  have f: "a < fresh ?h2" using Cons.prems by (simp add: alloc_def)
  have v: "vecs ?h2 a = vecs h a" using Cons.prems by (simp add: alloc_def)
  have "vecs (snd (make_positions rnd (k + 6) imgs ?h2)) a = vecs ?h2 a"
    using f by (rule Cons.IH)
  with v show ?case by (simp add: Let_def)
qed

text \<open>
  C5 as stated fails on the upload: in the sample gallery, the dispersed target of the
  photo that was already there is at the origin before the second photo is added and
  15 away from it after.
\<close>

lemma upload_before_value:
  "upload_before =
     ((0, [\<lparr>dispersed = 0, formed = 1\<rparr>]),
      \<lparr>vecs = (\<lambda>a. Vector3_new 0 0 0)(0 := randomInSphere 30 0 0 0, 1 := randomInHeart 0.6 0 0 0),
       fresh = 2\<rparr>)"
  by (simp add: upload_before_def gallery_positions_def useMemo_def alloc_def Let_def numeral_2_eq_2)

lemma upload_after_first:
  "dispersed (snd (fst upload_after) ! 0) = 2
   \<and> vecs (snd upload_after) 2 = randomInSphere 30 0 (1 / 2) (1 / 8)"
  unfolding upload_after_def upload_before_value
  by (simp add: gallery_positions_def useMemo_def handleFileUpload_def alloc_def Let_def)

theorem upload_redraws_existing_target:
  "vecs (snd upload_after) (dispersed (snd (fst upload_after) ! 0))
     \<noteq> vecs (snd upload_before) (dispersed (snd (fst upload_before) ! 0))"
proof
  assume "vecs (snd upload_after) (dispersed (snd (fst upload_after) ! 0))
     = vecs (snd upload_before) (dispersed (snd (fst upload_before) ! 0))"
  then have "randomInSphere 30 0 (1 / 2) (1 / 8) = randomInSphere 30 0 0 0"
    using upload_after_first by (simp add: upload_before_value)
  then have "length3 (randomInSphere 30 0 (1 / 2) (1 / 8)) = length3 (randomInSphere 30 0 0 0)"
    by simp
  then show False
    by (simp add: length3_randomInSphere root3_eighth)
qed

text \<open>
  C5, as the code has it. No run of frames of a photo changes any vector of the store
  but the photo's own \<open>position\<close> ref, so no target; a frame of the particles changes
  no array but \<open>currentPositions\<close> and keeps the two target buffers. The memo of the
  particles is never recomputed. The memo of the gallery is kept by a render with the
  same images array; an upload installs a new array, and the next render recomputes
  the pairs of all photos, the existing ones included, from fresh draws (as new vectors:
  the vectors allocated before keep their values).
\<close>

theorem targets_between_uploads:
  assumes "a \<noteq> p_position F" and "b \<noteq> currentPositions P" and "loaded \<noteq> []"
    and "old < fresh h"
  shows "vecs (snd (photoFrame_frames three fs F h)) a = vecs h a
     \<and> snd (particles_useFrame gs hand delta time P bufs) b = bufs b
     \<and> heartPositions (fst (particles_useFrame gs hand delta time P bufs)) = heartPositions P
     \<and> dispersedPositions (fst (particles_useFrame gs hand delta time P bufs)) = dispersedPositions P
     \<and> useMemo (particles_factory rnd) () (Some ((), t)) s = (((), t), s)
     \<and> gallery_positions rnd imgs (Some (images_id imgs, ps)) h = ((images_id imgs, ps), h)
     \<and> gallery_positions rnd (handleFileUpload loaded imgs) (Some (images_id imgs, ps)) h
         = ((Suc (images_id imgs), fst (make_positions rnd 0 (images imgs @ loaded) h)),
            snd (make_positions rnd 0 (images imgs @ loaded) h))
     \<and> vecs (snd (make_positions rnd 0 (images imgs @ loaded) h)) old = vecs h old"
proof -
  have up: "handleFileUpload loaded imgs = \<lparr>images = images imgs @ loaded, images_id = Suc (images_id imgs)\<rparr>"
    using assms(3) by (simp add: handleFileUpload_def)
  have "gallery_positions rnd (handleFileUpload loaded imgs) (Some (images_id imgs, ps)) h
         = ((Suc (images_id imgs), fst (make_positions rnd 0 (images imgs @ loaded) h)),
            snd (make_positions rnd 0 (images imgs @ loaded) h))"
    unfolding up gallery_positions_def by (simp add: useMemo_changed)
  then show ?thesis
    using frames_frame [OF assms(1)] particles_useFrame_frame [OF assms(2)]
      make_positions_old [OF assms(4)]
    by (simp add: useMemo_same gallery_positions_def)
qed

theorem targets_between_uploads_witness:
  "vecs (snd (photoFrame_frames sample_three
        [(0, cameraPos, sample_props), (1, cameraPos, sample_focused_props)] sample_frame sample_heap)) 0
     = Vector3_new 0 0 20
   \<and> snd (particles_useFrame FORMED (Vector3_new 0 0 0) 0 0 sample_particles (\<lambda>a. [])) 0 = []
   \<and> gallery_positions (\<lambda>k. 0) \<lparr>images = [''a''], images_id = 0\<rparr> (Some (0, sample_positions))
        sample_heap = ((0, sample_positions), sample_heap)
   \<and> fst (fst (gallery_positions (\<lambda>k. 0) (handleFileUpload [''b''] \<lparr>images = [''a''], images_id = 0\<rparr>)
        (Some (0, sample_positions)) sample_heap)) = 1"
proof -
  have a: "(0::nat) \<noteq> p_position sample_frame" by (simp add: sample_frame_def)
  have b: "(0::nat) \<noteq> currentPositions sample_particles" by (simp add: sample_particles_def)
  have c: "[''b''] \<noteq> []" by simp
  have d: "0 < fresh sample_heap" by (simp add: sample_heap_def)
  from targets_between_uploads [OF a b c d, of sample_three
      "[(0, cameraPos, sample_props), (1, cameraPos, sample_focused_props)]"
      FORMED "Vector3_new 0 0 0" 0 0 "\<lambda>a. []" "\<lambda>k. 0" _ _
      "\<lparr>images = [''a''], images_id = 0\<rparr>" sample_positions]
  show ?thesis by (simp add: sample_heap_def)
qed

end
